theory Spec2Isabelle
  imports Main
begin

section \<open>The language-server client (lsp-client.ts)\<close>

text \<open>
  The client class \<open>SourceKitLSPClient\<close> owns two maps (\<open>diagnosticsCache\<close>,
  \<open>openFiles\<close>), a JSON-RPC connection and a child process. The connection and the
  process are objects of external packages (vscode-jsonrpc, child_process): what the
  client asks of them is recorded, in order, in a list of effects, and what they answer is
  a parameter of every operation (\<open>MessageConnection\<close> below). An awaited promise
  resolves, rejects, or never settles; the code sets no timeout, so an operation that
  awaits a promise of the last kind never returns. Line, column and version
  numbers are JavaScript numbers; they are modelled by \<open>int\<close> and \<open>nat\<close>, with which
  JavaScript arithmetic agrees on integers of magnitude below \<open>2^53\<close>.
\<close>

type_synonym uri = string

text \<open>
  A thrown value, as far as the code inspects it: \<open>thrownCode\<close> is its \<open>code\<close> property
  when that is a string, \<open>thrownText\<close> is the value of
  \<open>error instanceof Error ? error.message : String(error)\<close>.
\<close>

datatype thrown = Thrown (thrownCode: "string option") (thrownText: string)

datatype Position = Position (pos_line: int) (pos_character: int)

datatype Range = Range (range_start: Position) (range_end: Position)

datatype Location = Location (loc_uri: uri) (loc_range: Range)

datatype Diagnostic =
  Diagnostic (diag_range: Range) (diag_severity: "nat option")
    (diag_message: string) (diag_source: "string option")

datatype MarkedString = MarkedText string | MarkedCode string string

text \<open>
  The shapes of \<open>Hover.contents\<close>: a string, a \<open>MarkupContent {kind, value}\<close>, a single
  \<open>{language, value}\<close> object, or an array of marked strings.
\<close>

datatype HoverContents =
    ContentsString string
  | ContentsMarkup string string
  | ContentsMarked string string
  | ContentsArray "MarkedString list"

datatype Hover = Hover (hover_contents: "HoverContents option")

datatype DefinitionResult = DefinitionNull | DefinitionOne Location | DefinitionMany "Location list"

datatype SymbolInformation =
  SymbolInformation (sym_name: string) (sym_kind: nat) (sym_location: Location)
    (sym_containerName: "string option")

datatype PublishDiagnosticsParams =
  PublishDiagnosticsParams (pd_uri: uri) (pd_diagnostics: "Diagnostic list")

datatype notification =
    DidOpen uri string nat string
  | DidChange uri nat string
  | DidClose uri
  | InitializedNotification
  | ExitNotification

datatype request =
    InitializeRequest uri
  | HoverRequest uri Position
  | DefinitionRequest uri Position
  | ReferencesRequest uri Position bool
  | WorkspaceSymbolRequest string
  | ShutdownRequest

datatype effect =
    Spawn string "string list" string
  | OnNotification string
  | Listen
  | SendRequest request
  | SendNotification notification
  | Dispose
  | Kill
  | ConsoleError string

text \<open>
  The result of an \<open>await\<close>, and so of an \<open>async\<close> function: \<open>None\<close> when the
  awaited promise never settles (the function never returns), \<open>Some (Inl e)\<close> when it
  rejects or the call throws \<open>e\<close>, \<open>Some (Inr v)\<close> when it resolves with \<open>v\<close>.
\<close>

type_synonym 'a awaited = "(thrown + 'a) option"

text \<open>
  What a call of \<open>connection.sendNotification\<close> does: it returns a promise that
  resolves, it throws before returning, it returns a promise that rejects, or it returns
  a promise that never settles. An awaited call sees both failures as an exception and
  waits for ever on the last; a call that is not awaited sees only the thrown exception.
\<close>

datatype notify_outcome = Resolves | ThrowsSync thrown | Rejects thrown | NeverSettles

record MessageConnection =
  notifyOutcome :: "notification \<Rightarrow> notify_outcome"
  initializeOutcome :: "uri \<Rightarrow> string awaited"
  hoverOutcome :: "uri \<Rightarrow> Position \<Rightarrow> Hover option awaited"
  definitionOutcome :: "uri \<Rightarrow> Position \<Rightarrow> DefinitionResult awaited"
  referencesOutcome :: "uri \<Rightarrow> Position \<Rightarrow> bool \<Rightarrow> Location list option awaited"
  symbolOutcome :: "string \<Rightarrow> SymbolInformation list option awaited"
  shutdownOutcome :: "unit awaited"

datatype FileInfo = FileInfo (file_version: nat) (file_content: string)

record SourceKitLSPClient =
  diagnosticsCache :: "uri \<rightharpoonup> Diagnostic list"
  openFiles :: "uri \<rightharpoonup> FileInfo"
  effects :: "effect list"

definition newClient :: SourceKitLSPClient where
  "newClient = \<lparr>diagnosticsCache = Map.empty, openFiles = Map.empty, effects = []\<rparr>"

definition perform :: "effect \<Rightarrow> SourceKitLSPClient \<Rightarrow> SourceKitLSPClient" where
  "perform e c = c\<lparr>effects := effects c @ [e]\<rparr>"

definition awaitNotification ::
  "MessageConnection \<Rightarrow> notification \<Rightarrow> SourceKitLSPClient \<Rightarrow> unit awaited \<times> SourceKitLSPClient" where
  "awaitNotification conn n c =
     (case notifyOutcome conn n of
        Resolves \<Rightarrow> (Some (Inr ()), perform (SendNotification n) c)
      | ThrowsSync e \<Rightarrow> (Some (Inl e), perform (SendNotification n) c)
      | Rejects e \<Rightarrow> (Some (Inl e), perform (SendNotification n) c)
      | NeverSettles \<Rightarrow> (None, perform (SendNotification n) c))"

definition fireNotification ::
  "MessageConnection \<Rightarrow> notification \<Rightarrow> SourceKitLSPClient \<Rightarrow> (thrown + unit) \<times> SourceKitLSPClient" where
  "fireNotification conn n c =
     (case notifyOutcome conn n of
        Resolves \<Rightarrow> (Inr (), perform (SendNotification n) c)
      | ThrowsSync e \<Rightarrow> (Inl e, perform (SendNotification n) c)
      | Rejects e \<Rightarrow> (Inr (), perform (SendNotification n) c)
      | NeverSettles \<Rightarrow> (Inr (), perform (SendNotification n) c))"

text \<open>The handler registered for \<open>textDocument/publishDiagnostics\<close> in \<open>connect\<close>.\<close>

definition onPublishDiagnostics :: "PublishDiagnosticsParams \<Rightarrow> SourceKitLSPClient \<Rightarrow> SourceKitLSPClient" where
  "onPublishDiagnostics params c =
     c\<lparr>diagnosticsCache := (diagnosticsCache c)(pd_uri params \<mapsto> pd_diagnostics params)\<rparr>"

definition updateFile ::
  "MessageConnection \<Rightarrow> uri \<Rightarrow> string \<Rightarrow> nat \<Rightarrow> SourceKitLSPClient \<Rightarrow> unit awaited \<times> SourceKitLSPClient" where
  "updateFile conn uri content version c = awaitNotification conn (DidChange uri version content) c"

definition openFile ::
  "MessageConnection \<Rightarrow> uri \<Rightarrow> string \<Rightarrow> SourceKitLSPClient \<Rightarrow> unit awaited \<times> SourceKitLSPClient" where
  "openFile conn uri content c =
     (case openFiles c uri of
        Some existing \<Rightarrow>
          if file_content existing = content then (Some (Inr ()), c)
          else
            (let newVersion = file_version existing + 1 in
             case updateFile conn uri content newVersion c of
               (None, c1) \<Rightarrow> (None, c1)
             | (Some (Inl e), c1) \<Rightarrow> (Some (Inl e), c1)
             | (Some (Inr _), c1) \<Rightarrow>
                 (Some (Inr ()), c1\<lparr>openFiles := (openFiles c1)(uri \<mapsto> FileInfo newVersion content)\<rparr>))
      | None \<Rightarrow>
          (case awaitNotification conn (DidOpen uri ''swift'' 1 content) c of
             (None, c1) \<Rightarrow> (None, c1)
           | (Some (Inl e), c1) \<Rightarrow> (Some (Inl e), c1)
           | (Some (Inr _), c1) \<Rightarrow>
               (Some (Inr ()), c1\<lparr>openFiles := (openFiles c1)(uri \<mapsto> FileInfo 1 content)\<rparr>)))"

text \<open>
  \<open>openFile\<close> in the two parts that the event loop runs: up to its \<open>await\<close> (the map
  is read and the notification handed to the connection), and from the moment the
  awaited promise settles (the entry is stored). Other code can run in between.
\<close>

definition openFileStart ::
  "MessageConnection \<Rightarrow> uri \<Rightarrow> string \<Rightarrow> SourceKitLSPClient \<Rightarrow>
     (notify_outcome \<times> FileInfo) option \<times> SourceKitLSPClient" where
  "openFileStart conn uri content c =
     (case openFiles c uri of
        Some existing \<Rightarrow>
          if file_content existing = content then (None, c)
          else
            (let newVersion = file_version existing + 1 in
             (Some (notifyOutcome conn (DidChange uri newVersion content), FileInfo newVersion content),
              perform (SendNotification (DidChange uri newVersion content)) c))
      | None \<Rightarrow>
          (Some (notifyOutcome conn (DidOpen uri ''swift'' 1 content), FileInfo 1 content),
           perform (SendNotification (DidOpen uri ''swift'' 1 content)) c))"

definition openFileResume ::
  "uri \<Rightarrow> (notify_outcome \<times> FileInfo) option \<Rightarrow> SourceKitLSPClient \<Rightarrow>
     unit awaited \<times> SourceKitLSPClient" where
  "openFileResume uri suspended c =
     (case suspended of
        None \<Rightarrow> (Some (Inr ()), c)
      | Some (Resolves, entry) \<Rightarrow> (Some (Inr ()), c\<lparr>openFiles := (openFiles c)(uri \<mapsto> entry)\<rparr>)
      | Some (ThrowsSync e, entry) \<Rightarrow> (Some (Inl e), c)
      | Some (Rejects e, entry) \<Rightarrow> (Some (Inl e), c)
      | Some (NeverSettles, entry) \<Rightarrow> (None, c))"

text \<open>
  Two calls of \<open>openFile\<close> with the same arguments of which the second is made before
  the first has completed, as by two tool calls for one file that are handled at the
  same time: both run up to their \<open>await\<close>, then both resume.
\<close>

definition openFileOverlapped ::
  "MessageConnection \<Rightarrow> uri \<Rightarrow> string \<Rightarrow> SourceKitLSPClient \<Rightarrow>
     (unit awaited \<times> unit awaited) \<times> SourceKitLSPClient" where
  "openFileOverlapped conn uri content c =
     (case openFileStart conn uri content c of
        (first, c1) \<Rightarrow>
          (case openFileStart conn uri content c1 of
             (second, c2) \<Rightarrow>
               (case openFileResume uri first c2 of
                  (r1, c3) \<Rightarrow>
                    (case openFileResume uri second c3 of
                       (r2, c4) \<Rightarrow> ((r1, r2), c4)))))"

definition closeFile ::
  "MessageConnection \<Rightarrow> uri \<Rightarrow> SourceKitLSPClient \<Rightarrow> unit awaited \<times> SourceKitLSPClient" where
  "closeFile conn uri c =
     (case awaitNotification conn (DidClose uri) c of
        (None, c1) \<Rightarrow> (None, c1)
      | (Some (Inl e), c1) \<Rightarrow> (Some (Inl e), c1)
      | (Some (Inr _), c1) \<Rightarrow> (Some (Inr ()), c1\<lparr>openFiles := (openFiles c1)(uri := None)\<rparr>))"

definition getFileVersion :: "uri \<Rightarrow> SourceKitLSPClient \<Rightarrow> nat option" where
  "getFileVersion uri c = (case openFiles c uri of Some fileInfo \<Rightarrow> Some (file_version fileInfo) | None \<Rightarrow> None)"

definition hover ::
  "MessageConnection \<Rightarrow> uri \<Rightarrow> int \<Rightarrow> int \<Rightarrow> SourceKitLSPClient \<Rightarrow> Hover option awaited \<times> SourceKitLSPClient" where
  "hover conn uri line character c =
     (hoverOutcome conn uri (Position line character),
      perform (SendRequest (HoverRequest uri (Position line character))) c)"

definition definition_at ::
  "MessageConnection \<Rightarrow> uri \<Rightarrow> int \<Rightarrow> int \<Rightarrow> SourceKitLSPClient \<Rightarrow> DefinitionResult awaited \<times> SourceKitLSPClient" where
  "definition_at conn uri line character c =
     (definitionOutcome conn uri (Position line character),
      perform (SendRequest (DefinitionRequest uri (Position line character))) c)"

definition references ::
  "MessageConnection \<Rightarrow> uri \<Rightarrow> int \<Rightarrow> int \<Rightarrow> bool \<Rightarrow> SourceKitLSPClient \<Rightarrow>
     Location list option awaited \<times> SourceKitLSPClient" where
  "references conn uri line character includeDeclaration c =
     (referencesOutcome conn uri (Position line character) includeDeclaration,
      perform (SendRequest (ReferencesRequest uri (Position line character) includeDeclaration)) c)"

definition workspaceSymbols ::
  "MessageConnection \<Rightarrow> string \<Rightarrow> SourceKitLSPClient \<Rightarrow>
     SymbolInformation list option awaited \<times> SourceKitLSPClient" where
  "workspaceSymbols conn query c =
     (symbolOutcome conn query, perform (SendRequest (WorkspaceSymbolRequest query)) c)"

definition getDiagnostics :: "uri \<Rightarrow> SourceKitLSPClient \<Rightarrow> Diagnostic list" where
  "getDiagnostics uri c = (case diagnosticsCache c uri of Some ds \<Rightarrow> ds | None \<Rightarrow> [])"

definition shutdown ::
  "MessageConnection \<Rightarrow> SourceKitLSPClient \<Rightarrow> unit awaited \<times> SourceKitLSPClient" where
  "shutdown conn c =
     (let c1 = perform (SendRequest ShutdownRequest) c in
      case shutdownOutcome conn of
        None \<Rightarrow> (None, c1)
      | Some (Inl e) \<Rightarrow> (Some (Inl e), c1)
      | Some (Inr _) \<Rightarrow>
          (case fireNotification conn ExitNotification c1 of
             (Inl e, c2) \<Rightarrow> (Some (Inl e), c2)
           | (Inr _, c2) \<Rightarrow> (Some (Inr ()), perform Kill (perform Dispose c2))))"

subsection \<open>Process events and start-up\<close>

text \<open>Decimal rendering of a number in a template string.\<close>

fun showNat :: "nat \<Rightarrow> string" where
  "showNat n = (if n < 10 then [''0123456789'' ! n] else showNat (n div 10) @ [''0123456789'' ! (n mod 10)])"

declare showNat.simps [simp del]

definition showInt :: "int \<Rightarrow> string" where
  "showInt i = (if i < 0 then ''-'' @ showNat (nat (- i)) else showNat (nat i))"

text \<open>\<open>String.prototype.split\<close> with a one-character separator.\<close>

fun splitOn :: "char \<Rightarrow> string \<Rightarrow> string list" where
  "splitOn d [] = [[]]"
| "splitOn d (x # xs) =
     (if x = d then [] # splitOn d xs
      else (case splitOn d xs of w # ws \<Rightarrow> (x # w) # ws | [] \<Rightarrow> [[x]]))"

text \<open>
  The observer registered with \<open>process.on('exit', ...)\<close>: the exit code is a number,
  or \<open>null\<close> when a signal ended the process.
\<close>

definition onProcessExit :: "int option \<Rightarrow> SourceKitLSPClient \<Rightarrow> SourceKitLSPClient" where
  "onProcessExit code c =
     perform (ConsoleError (''SourceKit-LSP exited with code '' @
                (case code of Some n \<Rightarrow> showInt n | None \<Rightarrow> ''null''))) c"

text \<open>
  \<open>connect\<close>: the two environment variables, whether the spawned process has its
  \<open>stdin\<close> and \<open>stdout\<close> streams, and \<open>URI.file(workspaceRoot).toString()\<close> are
  parameters. The constant \<open>capabilities\<close> and the process id of the initialize request
  are left out of the recorded request.
\<close>

definition connect ::
  "string option \<Rightarrow> string option \<Rightarrow> bool \<Rightarrow> (string \<Rightarrow> uri) \<Rightarrow> MessageConnection \<Rightarrow> string \<Rightarrow>
     SourceKitLSPClient \<Rightarrow> string awaited \<times> SourceKitLSPClient" where
  "connect envLspPath envBuildArgs streams fileUri conn workspaceRoot c =
     (let lspPath = (case envLspPath of Some p \<Rightarrow> if p = [] then ''sourcekit-lsp'' else p
                     | None \<Rightarrow> ''sourcekit-lsp'');
          buildArgs = (case envBuildArgs of Some a \<Rightarrow> splitOn CHR '' '' a | None \<Rightarrow> []);
          c1 = perform (Spawn lspPath buildArgs workspaceRoot) c
      in if \<not> streams then (Some (Inl (Thrown None ''Failed to create process streams'')), c1)
         else
           (let c2 = perform Listen (perform (OnNotification ''textDocument/publishDiagnostics'') c1);
                rootUri = fileUri workspaceRoot;
                c3 = perform (SendRequest (InitializeRequest rootUri)) c2
            in case initializeOutcome conn rootUri of
                 None \<Rightarrow> (None, c3)
               | Some (Inl e) \<Rightarrow> (Some (Inl e), c3)
               | Some (Inr initResult) \<Rightarrow>
                   (case fireNotification conn InitializedNotification c3 of
                      (Inl e, c4) \<Rightarrow> (Some (Inl e), c4)
                    | (Inr _, c4) \<Rightarrow> (Some (Inr initResult), c4))))"

subsection \<open>Sequences of client operations\<close>

text \<open>
  The client is used from a single-threaded event loop: between two of its operations any
  number of inbound notifications and process events may be handled. An \<open>event\<close> is one
  such step; each call carries the behaviour the connection shows during it. A call of
  \<open>openFile\<close> is one step, or two steps (its start and its resumption) with other steps
  in between.
\<close>

datatype event =
    Published PublishDiagnosticsParams
  | ProcessExited "int option"
  | OpenFileCall MessageConnection uri string
  | OpenFileStarted MessageConnection uri string
  | OpenFileResumed uri "(notify_outcome \<times> FileInfo) option"
  | CloseFileCall MessageConnection uri
  | HoverCall MessageConnection uri int int
  | DefinitionCall MessageConnection uri int int
  | ReferencesCall MessageConnection uri int int bool
  | SymbolsCall MessageConnection string
  | ShutdownCall MessageConnection

fun step :: "event \<Rightarrow> SourceKitLSPClient \<Rightarrow> SourceKitLSPClient" where
  "step (Published params) c = onPublishDiagnostics params c"
| "step (ProcessExited code) c = onProcessExit code c"
| "step (OpenFileCall conn uri content) c = snd (openFile conn uri content c)"
| "step (OpenFileStarted conn uri content) c = snd (openFileStart conn uri content c)"
| "step (OpenFileResumed uri suspended) c = snd (openFileResume uri suspended c)"
| "step (CloseFileCall conn uri) c = snd (closeFile conn uri c)"
| "step (HoverCall conn uri l ch) c = snd (hover conn uri l ch c)"
| "step (DefinitionCall conn uri l ch) c = snd (definition_at conn uri l ch c)"
| "step (ReferencesCall conn uri l ch incl) c = snd (references conn uri l ch incl c)"
| "step (SymbolsCall conn query) c = snd (workspaceSymbols conn query c)"
| "step (ShutdownCall conn) c = snd (shutdown conn c)"

definition run :: "event list \<Rightarrow> SourceKitLSPClient \<Rightarrow> SourceKitLSPClient" where
  "run evs c = fold step evs c"

text \<open>
  The reference for the diagnostics cache: the notifications among the events, in order of
  receipt, and the diagnostics of the last of them for a given URI.
\<close>

fun published :: "event list \<Rightarrow> PublishDiagnosticsParams list" where
  "published [] = []"
| "published (Published params # evs) = params # published evs"
| "published (_ # evs) = published evs"

definition latestDiagnostics :: "uri \<Rightarrow> event list \<Rightarrow> Diagnostic list" where
  "latestDiagnostics uri evs =
     (case filter (\<lambda>params. pd_uri params = uri) (published evs) of
        [] \<Rightarrow> []
      | ps \<Rightarrow> pd_diagnostics (last ps))"

text \<open>The notifications a client has sent, by kind.\<close>

fun isDidOpen :: "effect \<Rightarrow> bool" where
  "isDidOpen (SendNotification (DidOpen _ _ _ _)) = True"
| "isDidOpen _ = False"

fun isDidChange :: "effect \<Rightarrow> bool" where
  "isDidChange (SendNotification (DidChange _ _ _)) = True"
| "isDidChange _ = False"

fun isSpawn :: "effect \<Rightarrow> bool" where
  "isSpawn (Spawn _ _ _) = True"
| "isSpawn _ = False"

definition emittedSince :: "SourceKitLSPClient \<Rightarrow> SourceKitLSPClient \<Rightarrow> effect list" where
  "emittedSince c c' = drop (length (effects c)) (effects c')"

section \<open>The translation layer (tools/*.ts)\<close>

text \<open>
  Each tool is an object with one \<open>execute\<close> method. What a tool needs from outside is
  gathered in a \<open>Host\<close>: the result of awaiting \<open>fs.readFile(file, 'utf8')\<close>, the connection's
  behaviour during the call, the two conversions of the vscode-uri package
  (\<open>URI.file(path).toString()\<close> and \<open>URI.parse(uri).fsPath\<close>, taken as total functions),
  and the \<open>publishDiagnostics\<close> notifications that are handled while the diagnostics tool
  waits. The response \<open>{content: [{type: 'text', text}]}\<close> is a \<open>TextContent\<close>.
\<close>

record Host =
  readFile :: "string \<Rightarrow> string awaited"
  connection :: MessageConnection
  fileUri :: "string \<Rightarrow> uri"
  fsPath :: "uri \<Rightarrow> string"
  arrivals :: "PublishDiagnosticsParams list"

datatype ToolResponse = TextContent (response_text: string)

definition newline :: string where
  "newline = [CHR 0x0A]"

text \<open>\<open>Array.prototype.join\<close>.\<close>

fun joinWith :: "string \<Rightarrow> string list \<Rightarrow> string" where
  "joinWith sep [] = []"
| "joinWith sep [x] = x"
| "joinWith sep (x # y # ys) = x @ sep @ joinWith sep (y # ys)"

definition plural :: "nat \<Rightarrow> string" where
  "plural n = (if n = 1 then [] else ''s'')"

definition bullets :: "string list \<Rightarrow> string" where
  "bullets items = joinWith newline (map (\<lambda>item. ''- '' @ item) items)"

text \<open>
  The inner \<open>try\<close> block that every file-based tool starts with: read the file, open it
  in the client, and turn an error whose code is \<open>ENOENT\<close> into \<open>File not found\<close>.
\<close>

definition rethrown :: "string \<Rightarrow> thrown \<Rightarrow> thrown" where
  "rethrown file error =
     (if thrownCode error = Some ''ENOENT'' then Thrown None (''File not found: '' @ file) else error)"

definition ensureOpen ::
  "Host \<Rightarrow> string \<Rightarrow> uri \<Rightarrow> SourceKitLSPClient \<Rightarrow> unit awaited \<times> SourceKitLSPClient" where
  "ensureOpen host file uri c =
     (case (case readFile host file of
              None \<Rightarrow> (None, c)
            | Some (Inl e) \<Rightarrow> (Some (Inl e), c)
            | Some (Inr content) \<Rightarrow> openFile (connection host) uri content c) of
        (None, c1) \<Rightarrow> (None, c1)
      | (Some (Inl error), c1) \<Rightarrow> (Some (Inl (rethrown file error)), c1)
      | (Some (Inr _), c1) \<Rightarrow> (Some (Inr ()), c1))"

text \<open>
  The outer \<open>catch\<close> of a tool: the error becomes a text response. A \<open>try\<close> block
  that is still waiting is not interrupted.
\<close>

definition catchAs ::
  "string \<Rightarrow> ToolResponse awaited \<times> SourceKitLSPClient \<Rightarrow> ToolResponse awaited \<times> SourceKitLSPClient" where
  "catchAs prefix r =
     (case r of
        (None, c) \<Rightarrow> (None, c)
      | (Some (Inl error), c) \<Rightarrow> (Some (Inr (TextContent (prefix @ thrownText error))), c)
      | (Some (Inr response), c) \<Rightarrow> (Some (Inr response), c))"

subsection \<open>hover.ts\<close>

definition markedValue :: "MarkedString \<Rightarrow> string" where
  "markedValue content = (case content of MarkedText s \<Rightarrow> s | MarkedCode language v \<Rightarrow> v)"

definition renderHover :: "Hover option \<Rightarrow> string" where
  "renderHover result =
     (case result of
        None \<Rightarrow> ''No type information available at this position''
      | Some h \<Rightarrow>
          (case hover_contents h of
             None \<Rightarrow> ''No type information available at this position''
           | Some contents \<Rightarrow>
               if contents = ContentsString [] then ''No type information available at this position''
               else
                 (let text = (case contents of
                                ContentsString s \<Rightarrow> s
                              | ContentsMarkup kind v \<Rightarrow> v
                              | ContentsArray items \<Rightarrow> joinWith newline (map markedValue items)
                              | ContentsMarked language v \<Rightarrow> [])
                  in if text = [] then ''No type information available'' else text)))"

definition hoverExecute ::
  "Host \<Rightarrow> string \<Rightarrow> int \<Rightarrow> int \<Rightarrow> SourceKitLSPClient \<Rightarrow> ToolResponse awaited \<times> SourceKitLSPClient" where
  "hoverExecute host file line column c =
     (let uri = fileUri host file;
          lspLine = line - 1;
          lspColumn = column - 1
      in catchAs ''Failed to get hover information: ''
           (case ensureOpen host file uri c of
              (None, c1) \<Rightarrow> (None, c1)
            | (Some (Inl e), c1) \<Rightarrow> (Some (Inl e), c1)
            | (Some (Inr _), c1) \<Rightarrow>
                (case hover (connection host) uri lspLine lspColumn c1 of
                   (None, c2) \<Rightarrow> (None, c2)
                 | (Some (Inl e), c2) \<Rightarrow> (Some (Inl e), c2)
                 | (Some (Inr result), c2) \<Rightarrow> (Some (Inr (TextContent (renderHover result))), c2))))"

subsection \<open>definition.ts and references.ts\<close>

definition formatLocation :: "Host \<Rightarrow> Location \<Rightarrow> string" where
  "formatLocation host location =
     (let filePath = fsPath host (loc_uri location);
          startLine = pos_line (range_start (loc_range location)) + 1;
          startChar = pos_character (range_start (loc_range location)) + 1
      in filePath @ '':'' @ showInt startLine @ '':'' @ showInt startChar)"

definition renderDefinition :: "Host \<Rightarrow> DefinitionResult \<Rightarrow> string" where
  "renderDefinition host result =
     (case result of
        DefinitionNull \<Rightarrow> ''No definition found at this position''
      | _ \<Rightarrow>
          (let locations = (case result of DefinitionMany ls \<Rightarrow> ls | DefinitionOne l \<Rightarrow> [l]
                            | DefinitionNull \<Rightarrow> [])
           in if length locations = 0 then ''No definition found at this position''
              else
                (let definitions = map (formatLocation host) locations
                 in if length definitions = 1 then ''Definition found at: '' @ hd definitions
                    else ''Multiple definitions found:'' @ newline @ bullets definitions)))"

definition definitionExecute ::
  "Host \<Rightarrow> string \<Rightarrow> int \<Rightarrow> int \<Rightarrow> SourceKitLSPClient \<Rightarrow> ToolResponse awaited \<times> SourceKitLSPClient" where
  "definitionExecute host file line column c =
     (let uri = fileUri host file;
          lspLine = line - 1;
          lspColumn = column - 1
      in catchAs ''Failed to find definition: ''
           (case ensureOpen host file uri c of
              (None, c1) \<Rightarrow> (None, c1)
            | (Some (Inl e), c1) \<Rightarrow> (Some (Inl e), c1)
            | (Some (Inr _), c1) \<Rightarrow>
                (case definition_at (connection host) uri lspLine lspColumn c1 of
                   (None, c2) \<Rightarrow> (None, c2)
                 | (Some (Inl e), c2) \<Rightarrow> (Some (Inl e), c2)
                 | (Some (Inr result), c2) \<Rightarrow> (Some (Inr (TextContent (renderDefinition host result))), c2))))"

definition renderReferences :: "Host \<Rightarrow> Location list option \<Rightarrow> string" where
  "renderReferences host result =
     (case result of
        None \<Rightarrow> ''No references found for this symbol''
      | Some locations \<Rightarrow>
          if length locations = 0 then ''No references found for this symbol''
          else
            (let refs = map (formatLocation host) locations
             in ''Found '' @ showNat (length refs) @ '' reference'' @ plural (length refs) @ '':''
                @ newline @ bullets refs))"

definition referencesExecute ::
  "Host \<Rightarrow> string \<Rightarrow> int \<Rightarrow> int \<Rightarrow> bool option \<Rightarrow> SourceKitLSPClient \<Rightarrow>
     ToolResponse awaited \<times> SourceKitLSPClient" where
  "referencesExecute host file line column includeDeclarationArg c =
     (let includeDeclaration = (case includeDeclarationArg of None \<Rightarrow> True | Some b \<Rightarrow> b);
          uri = fileUri host file;
          lspLine = line - 1;
          lspColumn = column - 1
      in catchAs ''Failed to find references: ''
           (case ensureOpen host file uri c of
              (None, c1) \<Rightarrow> (None, c1)
            | (Some (Inl e), c1) \<Rightarrow> (Some (Inl e), c1)
            | (Some (Inr _), c1) \<Rightarrow>
                (case references (connection host) uri lspLine lspColumn includeDeclaration c1 of
                   (None, c2) \<Rightarrow> (None, c2)
                 | (Some (Inl e), c2) \<Rightarrow> (Some (Inl e), c2)
                 | (Some (Inr result), c2) \<Rightarrow> (Some (Inr (TextContent (renderReferences host result))), c2))))"

subsection \<open>symbols.ts\<close>

definition kindNames :: "string list" where
  "kindNames =
     [''File'', ''Module'', ''Namespace'', ''Package'', ''Class'', ''Method'', ''Property'',
      ''Field'', ''Constructor'', ''Enum'', ''Interface'', ''Function'', ''Variable'',
      ''Constant'', ''String'', ''Number'', ''Boolean'', ''Array'', ''Object'', ''Key'',
      ''Null'', ''EnumMember'', ''Struct'', ''Event'', ''Operator'', ''TypeParameter'']"

text \<open>The values of \<open>SymbolKind\<close> are the numbers 1 (File) to 26 (TypeParameter).\<close>

definition symbolKindToString :: "nat \<Rightarrow> string" where
  "symbolKindToString kind =
     (if 1 \<le> kind \<and> kind \<le> 26 then kindNames ! (kind - 1) else ''Unknown'')"

definition formatSymbol :: "Host \<Rightarrow> SymbolInformation \<Rightarrow> string" where
  "formatSymbol host symbol =
     (let filePath = fsPath host (loc_uri (sym_location symbol));
          line = pos_line (range_start (loc_range (sym_location symbol))) + 1;
          kind = symbolKindToString (sym_kind symbol);
          text = sym_name symbol @ '' ('' @ kind @ '')'';
          text = (case sym_containerName symbol of
                    None \<Rightarrow> text
                  | Some container \<Rightarrow> if container = [] then text else text @ '' in '' @ container)
      in text @ '' - '' @ filePath @ '':'' @ showInt line)"

definition quoted :: "string \<Rightarrow> string" where
  "quoted s = [CHR 0x22] @ s @ [CHR 0x22]"

definition renderSymbols :: "Host \<Rightarrow> string \<Rightarrow> SymbolInformation list option \<Rightarrow> string" where
  "renderSymbols host query result =
     (case result of
        None \<Rightarrow> ''No symbols found matching '' @ quoted query
      | Some found \<Rightarrow>
          if length found = 0 then ''No symbols found matching '' @ quoted query
          else
            (let symbols = map (formatSymbol host) found
             in ''Found '' @ showNat (length symbols) @ '' symbol'' @ plural (length symbols)
                @ '' matching '' @ quoted query @ '':'' @ newline @ bullets symbols))"

definition symbolsExecute ::
  "Host \<Rightarrow> string \<Rightarrow> SourceKitLSPClient \<Rightarrow> ToolResponse awaited \<times> SourceKitLSPClient" where
  "symbolsExecute host query c =
     catchAs ''Failed to search symbols: ''
       (case workspaceSymbols (connection host) query c of
          (None, c1) \<Rightarrow> (None, c1)
        | (Some (Inl e), c1) \<Rightarrow> (Some (Inl e), c1)
        | (Some (Inr result), c1) \<Rightarrow> (Some (Inr (TextContent (renderSymbols host query result))), c1))"

subsection \<open>diagnostics.ts\<close>

text \<open>The values of \<open>DiagnosticSeverity\<close> are 1 (Error), 2 (Warning), 3 (Information), 4 (Hint).\<close>

definition severityToString :: "nat \<Rightarrow> string" where
  "severityToString severity =
     (if severity = 1 then ''Error''
      else if severity = 2 then ''Warning''
      else if severity = 3 then ''Info''
      else if severity = 4 then ''Hint''
      else ''Unknown'')"

definition diagnosticLine :: "Diagnostic \<Rightarrow> string" where
  "diagnosticLine diagnostic =
     (let line = pos_line (range_start (diag_range diagnostic)) + 1;
          column = pos_character (range_start (diag_range diagnostic)) + 1;
          severity = severityToString
            (case diag_severity diagnostic of None \<Rightarrow> 1 | Some s \<Rightarrow> if s = 0 then 1 else s);
          message = diag_message diagnostic;
          source = (case diag_source diagnostic of
                      None \<Rightarrow> []
                    | Some src \<Rightarrow> if src = [] then [] else '' ['' @ src @ '']'')
      in severity @ '' at '' @ showInt line @ '':'' @ showInt column @ '': '' @ message @ source)"

definition diagnosticsSummary :: "Diagnostic list \<Rightarrow> string" where
  "diagnosticsSummary diagnostics =
     (let errors = filter (\<lambda>d. diag_severity d = Some 1) diagnostics;
          warnings = filter (\<lambda>d. diag_severity d = Some 2) diagnostics;
          others = filter (\<lambda>d. diag_severity d \<noteq> Some 1 \<and> diag_severity d \<noteq> Some 2) diagnostics;
          summary = [];
          summary = (if length errors > 0
                     then summary @ showNat (length errors) @ '' error'' @ plural (length errors)
                     else summary);
          summary = (if length warnings > 0
                     then (if summary \<noteq> [] then summary @ '', '' else summary)
                          @ showNat (length warnings) @ '' warning'' @ plural (length warnings)
                     else summary);
          summary = (if length others > 0
                     then (if summary \<noteq> [] then summary @ '', '' else summary)
                          @ showNat (length others) @ '' other'' @ plural (length others)
                     else summary)
      in summary)"

definition renderDiagnostics :: "Diagnostic list \<Rightarrow> string" where
  "renderDiagnostics diagnostics =
     (if length diagnostics = 0 then ''No diagnostics (errors or warnings) found for this file''
      else ''Found '' @ showNat (length diagnostics) @ '' diagnostic'' @ plural (length diagnostics)
           @ '' ('' @ diagnosticsSummary diagnostics @ ''):'' @ newline
           @ bullets (map diagnosticLine diagnostics))"

definition diagnosticsExecute ::
  "Host \<Rightarrow> string \<Rightarrow> SourceKitLSPClient \<Rightarrow> ToolResponse awaited \<times> SourceKitLSPClient" where
  "diagnosticsExecute host file c =
     (let uri = fileUri host file
      in catchAs ''Failed to get diagnostics: ''
           (case ensureOpen host file uri c of
              (None, c1) \<Rightarrow> (None, c1)
            | (Some (Inl e), c1) \<Rightarrow> (Some (Inl e), c1)
            | (Some (Inr _), c1) \<Rightarrow>
                (let c2 = fold onPublishDiagnostics (arrivals host) c1;
                     diagnostics = getDiagnostics uri c2
                 in (Some (Inr (TextContent (renderDiagnostics diagnostics))), c2))))"

section \<open>The tool-call handler (tool-definitions.ts, server.ts)\<close>

datatype json =
    JNull
  | JBool bool
  | JNumber int
  | JString string
  | JArray "json list"
  | JObject "(string \<times> json) list"

datatype json_type = TObject | TString | TNumber | TBoolean

datatype PropertySchema =
  PropertySchema (prop_type: json_type) (prop_description: string) (prop_default: "json option")
    (prop_minimum: "int option") (prop_minLength: "nat option")

datatype InputSchema =
  InputSchema (schema_type: json_type) (schema_properties: "(string \<times> PropertySchema) list")
    (schema_required: "string list") (schema_additionalProperties: "bool option")

datatype ToolDefinition =
  ToolDefinition (tool_name: string) (tool_description: string) (tool_inputSchema: InputSchema)

definition fileProperty :: "string \<times> PropertySchema" where
  "fileProperty = (''file'', PropertySchema TString ''Path to Swift file'' None None None)"

definition lineProperty :: "string \<times> PropertySchema" where
  "lineProperty = (''line'', PropertySchema TNumber ''Line number (1-based)'' None None None)"

definition columnProperty :: "string \<times> PropertySchema" where
  "columnProperty = (''column'', PropertySchema TNumber ''Column number (1-based)'' None None None)"

definition TOOL_DEFINITIONS :: "ToolDefinition list" where
  "TOOL_DEFINITIONS =
     [ToolDefinition ''swift-hover''
        ''Get type information and documentation for a symbol at a specific position''
        (InputSchema TObject [fileProperty, lineProperty, columnProperty]
           [''file'', ''line'', ''column''] None),
      ToolDefinition ''swift-definition''
        ''Find the definition of a symbol at a specific position''
        (InputSchema TObject [fileProperty, lineProperty, columnProperty]
           [''file'', ''line'', ''column''] None),
      ToolDefinition ''swift-references''
        ''Find all references to a symbol at a specific position''
        (InputSchema TObject
           [fileProperty, lineProperty, columnProperty,
            (''includeDeclaration'',
             PropertySchema TBoolean ''Include declaration in results'' (Some (JBool True)) None None)]
           [''file'', ''line'', ''column''] None),
      ToolDefinition ''swift-symbols''
        ''Search for symbols in the workspace''
        (InputSchema TObject
           [(''query'', PropertySchema TString ''Search query for symbol names'' None None None)]
           [''query''] None),
      ToolDefinition ''swift-diagnostics''
        ''Get compiler diagnostics (errors and warnings) for a file''
        (InputSchema TObject [fileProperty] [''file''] None)]"

text \<open>The answer to a \<open>tools/list\<close> request: the public schemas.\<close>

definition listTools :: "(string \<times> string \<times> InputSchema) list" where
  "listTools = map (\<lambda>tool. (tool_name tool, tool_description tool, tool_inputSchema tool)) TOOL_DEFINITIONS"

subsection \<open>The schema validator\<close>

text \<open>
  \<open>this.ajv.compile(validationSchema)\<close> builds a JSON Schema validator with the Ajv
  package, which is not part of the repository. \<open>ajvValidate\<close> gives the meaning that
  JSON Schema assigns to the keywords occurring in the tool schemas (\<open>type\<close>,
  \<open>required\<close>, \<open>additionalProperties\<close>, \<open>properties\<close>, \<open>minimum\<close>, \<open>minLength\<close>) on an
  arguments object, given as its list of properties; with Ajv's default options only the
  first violation is reported. An error has the \<open>instancePath\<close> and \<open>message\<close> that the
  handler prints.
\<close>

datatype AjvError = AjvError (instancePath: string) (message: string)

definition apostrophe :: string where
  "apostrophe = [CHR 0x27]"

definition checkProperty :: "string \<Rightarrow> PropertySchema \<Rightarrow> json \<Rightarrow> AjvError list" where
  "checkProperty key prop v =
     (case prop_type prop of
        TNumber \<Rightarrow>
          (case v of
             JNumber n \<Rightarrow>
               (case prop_minimum prop of
                  Some m \<Rightarrow> if n < m then [AjvError (''/'' @ key) (''must be >= '' @ showInt m)] else []
                | None \<Rightarrow> [])
           | _ \<Rightarrow> [AjvError (''/'' @ key) ''must be number''])
      | TString \<Rightarrow>
          (case v of
             JString str \<Rightarrow>
               (case prop_minLength prop of
                  Some m \<Rightarrow>
                    if length str < m
                    then [AjvError (''/'' @ key) (''must NOT have fewer than '' @ showNat m @ '' characters'')]
                    else []
                | None \<Rightarrow> [])
           | _ \<Rightarrow> [AjvError (''/'' @ key) ''must be string''])
      | TBoolean \<Rightarrow>
          (case v of JBool b \<Rightarrow> [] | _ \<Rightarrow> [AjvError (''/'' @ key) ''must be boolean''])
      | TObject \<Rightarrow>
          (case v of JObject members \<Rightarrow> [] | _ \<Rightarrow> [AjvError (''/'' @ key) ''must be object'']))"

definition ajvErrors :: "InputSchema \<Rightarrow> (string \<times> json) list \<Rightarrow> AjvError list" where
  "ajvErrors schema args =
     map (\<lambda>r. AjvError [] (''must have required property '' @ apostrophe @ r @ apostrophe))
       (filter (\<lambda>r. map_of args r = None) (schema_required schema))
     @ (if schema_additionalProperties schema = Some False
        then map (\<lambda>k. AjvError [] ''must NOT have additional properties'')
               (filter (\<lambda>k. map_of (schema_properties schema) k = None) (map fst args))
        else [])
     @ concat (map (\<lambda>(key, prop). case map_of args key of
                                      None \<Rightarrow> []
                                    | Some v \<Rightarrow> checkProperty key prop v)
                 (schema_properties schema))"

definition ajvValidate :: "InputSchema \<Rightarrow> (string \<times> json) list \<Rightarrow> AjvError list" where
  "ajvValidate schema args = take 1 (ajvErrors schema args)"

subsection \<open>validateToolArgs and the handler of tools/call\<close>

definition setMinimum :: "string \<Rightarrow> int \<Rightarrow> (string \<times> PropertySchema) list \<Rightarrow> (string \<times> PropertySchema) list" where
  "setMinimum key m props =
     map (\<lambda>(k, p). if k = key
                   then (k, PropertySchema (prop_type p) (prop_description p) (prop_default p)
                              (Some m) (prop_minLength p))
                   else (k, p)) props"

definition setMinLength :: "string \<Rightarrow> nat \<Rightarrow> (string \<times> PropertySchema) list \<Rightarrow> (string \<times> PropertySchema) list" where
  "setMinLength key m props =
     map (\<lambda>(k, p). if k = key
                   then (k, PropertySchema (prop_type p) (prop_description p) (prop_default p)
                              (prop_minimum p) (Some m))
                   else (k, p)) props"

text \<open>
  The schema that is compiled: a copy of the public one with \<open>additionalProperties\<close>
  false and the bounds on \<open>line\<close>, \<open>column\<close> and \<open>query\<close>.
\<close>

definition validationSchema :: "ToolDefinition \<Rightarrow> InputSchema" where
  "validationSchema toolDef =
     (let public = tool_inputSchema toolDef;
          props = (if schema_type public = TObject
                   then setMinLength ''query'' 1
                          (setMinimum ''column'' 1 (setMinimum ''line'' 1 (schema_properties public)))
                   else schema_properties public)
      in InputSchema (schema_type public) props (schema_required public) (Some False))"

definition renderAjvError :: "AjvError \<Rightarrow> string" where
  "renderAjvError err =
     (if instancePath err = [] then ''root'' else instancePath err) @ '' '' @ message err"

definition validateToolArgs :: "string \<Rightarrow> (string \<times> json) list \<Rightarrow> string option" where
  "validateToolArgs toolName args =
     (case find (\<lambda>tool. tool_name tool = toolName) TOOL_DEFINITIONS of
        None \<Rightarrow> Some (''Unknown tool: '' @ toolName)
      | Some toolDef \<Rightarrow>
          (let errs = ajvValidate (validationSchema toolDef) args
           in if errs \<noteq> []
              then (let errors = joinWith '', '' (map renderAjvError errs)
                    in Some (if errors = [] then ''Invalid arguments'' else errors))
              else None))"

text \<open>
  \<open>args as any\<close>: the tools read their arguments from the validated object. An object a
  tool cannot read its declared arguments from does not pass validation; for such an
  object the cast is modelled as a thrown \<open>TypeError\<close>.
\<close>

definition argString :: "(string \<times> json) list \<Rightarrow> string \<Rightarrow> string option" where
  "argString args key = (case map_of args key of Some (JString s) \<Rightarrow> Some s | _ \<Rightarrow> None)"

definition argNumber :: "(string \<times> json) list \<Rightarrow> string \<Rightarrow> int option" where
  "argNumber args key = (case map_of args key of Some (JNumber n) \<Rightarrow> Some n | _ \<Rightarrow> None)"

definition argBoolean :: "(string \<times> json) list \<Rightarrow> string \<Rightarrow> bool option option" where
  "argBoolean args key =
     (case map_of args key of None \<Rightarrow> Some None | Some (JBool b) \<Rightarrow> Some (Some b) | _ \<Rightarrow> None)"

definition typeError :: thrown where
  "typeError = Thrown None ''TypeError''"

definition callTool ::
  "Host \<Rightarrow> string \<Rightarrow> (string \<times> json) list \<Rightarrow> SourceKitLSPClient \<Rightarrow>
     ToolResponse awaited \<times> SourceKitLSPClient" where
  "callTool host name args c =
     (if name = ''swift-hover'' then
        (case (argString args ''file'', argNumber args ''line'', argNumber args ''column'') of
           (Some file, Some line, Some column) \<Rightarrow> hoverExecute host file line column c
         | _ \<Rightarrow> (Some (Inl typeError), c))
      else if name = ''swift-definition'' then
        (case (argString args ''file'', argNumber args ''line'', argNumber args ''column'') of
           (Some file, Some line, Some column) \<Rightarrow> definitionExecute host file line column c
         | _ \<Rightarrow> (Some (Inl typeError), c))
      else if name = ''swift-references'' then
        (case (argString args ''file'', argNumber args ''line'', argNumber args ''column'',
               argBoolean args ''includeDeclaration'') of
           (Some file, Some line, Some column, Some includeDeclaration) \<Rightarrow>
             referencesExecute host file line column includeDeclaration c
         | _ \<Rightarrow> (Some (Inl typeError), c))
      else if name = ''swift-symbols'' then
        (case argString args ''query'' of
           Some query \<Rightarrow> symbolsExecute host query c
         | None \<Rightarrow> (Some (Inl typeError), c))
      else if name = ''swift-diagnostics'' then
        (case argString args ''file'' of
           Some file \<Rightarrow> diagnosticsExecute host file c
         | None \<Rightarrow> (Some (Inl typeError), c))
      else (Some (Inl (Thrown None (''Unknown tool: '' @ name))), c))"

text \<open>
  The handler of \<open>tools/call\<close>: \<open>None\<close> when the tool it awaits never returns,
  otherwise the response.
\<close>

definition handleCallTool ::
  "Host \<Rightarrow> string \<Rightarrow> (string \<times> json) list option \<Rightarrow> SourceKitLSPClient \<Rightarrow>
     ToolResponse option \<times> SourceKitLSPClient" where
  "handleCallTool host name arguments c =
     (case arguments of
        None \<Rightarrow> (Some (TextContent ''Error: No arguments provided''), c)
      | Some args \<Rightarrow>
          (case (case validateToolArgs name args of
                   Some validationError \<Rightarrow>
                     if validationError \<noteq> []
                     then (Some (Inr (TextContent (''Validation error: '' @ validationError))), c)
                     else callTool host name args c
                 | None \<Rightarrow> callTool host name args c) of
             (None, c1) \<Rightarrow> (None, c1)
           | (Some (Inl error), c1) \<Rightarrow> (Some (TextContent (''Error: '' @ thrownText error)), c1)
           | (Some (Inr response), c1) \<Rightarrow> (Some response, c1)))"

definition declaredProperties :: "string \<Rightarrow> string list" where
  "declaredProperties toolName =
     (case find (\<lambda>tool. tool_name tool = toolName) TOOL_DEFINITIONS of
        None \<Rightarrow> []
      | Some toolDef \<Rightarrow> map fst (schema_properties (tool_inputSchema toolDef)))"

section \<open>Example connections, documents and hosts\<close>

definition exampleLocations :: "Location list" where
  "exampleLocations =
     [Location ''file:///test/file.swift'' (Range (Position 0 4) (Position 0 5)),
      Location ''file:///test/other.swift'' (Range (Position 9 0) (Position 9 1))]"

definition liveConnection :: MessageConnection where
  "liveConnection =
     \<lparr>notifyOutcome = (\<lambda>_. Resolves),
      initializeOutcome = (\<lambda>_. Some (Inr ''{}'')),
      hoverOutcome = (\<lambda>_ _. Some (Inr (Some (Hover (Some (ContentsString ''let x: String'')))))),
      definitionOutcome = (\<lambda>_ _. Some (Inr DefinitionNull)),
      referencesOutcome = (\<lambda>_ _ _. Some (Inr (Some exampleLocations))),
      symbolOutcome = (\<lambda>_. Some (Inr None)),
      shutdownOutcome = Some (Inr ())\<rparr>"

definition connectionClosed :: thrown where
  "connectionClosed = Thrown None ''Connection is closed.''"

definition deadConnection :: MessageConnection where
  "deadConnection =
     \<lparr>notifyOutcome = (\<lambda>_. ThrowsSync connectionClosed),
      initializeOutcome = (\<lambda>_. Some (Inl connectionClosed)),
      hoverOutcome = (\<lambda>_ _. Some (Inl connectionClosed)),
      definitionOutcome = (\<lambda>_ _. Some (Inl connectionClosed)),
      referencesOutcome = (\<lambda>_ _ _. Some (Inl connectionClosed)),
      symbolOutcome = (\<lambda>_. Some (Inl connectionClosed)),
      shutdownOutcome = Some (Inl connectionClosed)\<rparr>"


definition exampleUri :: uri where
  "exampleUri = ''file:///test/file.swift''"

definition exampleClient :: SourceKitLSPClient where
  "exampleClient = snd (openFile liveConnection exampleUri ''let x: String'' newClient)"

definition exampleHost :: Host where
  "exampleHost =
     \<lparr>readFile = (\<lambda>file. if file = ''/test/file.swift'' then Some (Inr ''let x: String'')
                         else Some (Inl (Thrown (Some ''ENOENT'') ''ENOENT: no such file or directory''))),
      connection = liveConnection,
      fileUri = (\<lambda>path. ''file://'' @ path),
      fsPath = drop 7,
      arrivals = []\<rparr>"

definition lineZeroArgs :: "(string \<times> json) list" where
  "lineZeroArgs = [(''file'', JString ''/test/file.swift''), (''line'', JNumber 0), (''column'', JNumber 5)]"

definition extraArgs :: "(string \<times> json) list" where
  "extraArgs = [(''file'', JString ''/test/file.swift''), (''verbose'', JBool True)]"

definition validArgs :: "(string \<times> json) list" where
  "validArgs = [(''file'', JString ''/test/file.swift''), (''line'', JNumber 1), (''column'', JNumber 5)]"

definition exitedClient :: SourceKitLSPClient where
  "exitedClient = onProcessExit (Some 1) exampleClient"

definition closedClient :: SourceKitLSPClient where
  "closedClient = snd (shutdown liveConnection exampleClient)"

definition deadHost :: Host where
  "deadHost = exampleHost\<lparr>connection := deadConnection\<rparr>"


definition oneLocation :: Location where
  "oneLocation = Location ''file:///test/def.swift'' (Range (Position 2 6) (Position 2 7))"

definition oneDefinitionHost :: Host where
  "oneDefinitionHost =
     exampleHost\<lparr>connection := liveConnection\<lparr>definitionOutcome :=
       (\<lambda>_ _. Some (Inr (DefinitionMany [oneLocation])))\<rparr>\<rparr>"

section \<open>Properties of the client\<close>

lemma effects_perform [simp]: "effects (perform e c) = effects c @ [e]"
  by (simp add: perform_def)

lemma openFiles_perform [simp]: "openFiles (perform e c) = openFiles c"
  by (simp add: perform_def)

lemma diagnosticsCache_perform [simp]: "diagnosticsCache (perform e c) = diagnosticsCache c"
  by (simp add: perform_def)

lemma awaitNotification_state [simp]:
  "snd (awaitNotification conn n c) = perform (SendNotification n) c"
  by (simp add: awaitNotification_def split: notify_outcome.splits)

lemma awaitNotification_result:
  "fst (awaitNotification conn n c) = Some (Inr ()) \<longleftrightarrow> notifyOutcome conn n = Resolves"
  by (simp add: awaitNotification_def split: notify_outcome.splits)

lemma fireNotification_state [simp]:
  "snd (fireNotification conn n c) = perform (SendNotification n) c"
  by (simp add: fireNotification_def split: notify_outcome.splits)

subsection \<open>Document synchronisation\<close>

lemma openFile_tracked_same:
  "openFiles c uri = Some (FileInfo v content) \<Longrightarrow> openFile conn uri content c = (Some (Inr ()), c)"
  by (simp add: openFile_def)

lemma openFile_untracked:
  "openFiles c uri = None \<Longrightarrow>
   openFile conn uri content c =
     (case notifyOutcome conn (DidOpen uri ''swift'' 1 content) of
        Resolves \<Rightarrow> (Some (Inr ()), (perform (SendNotification (DidOpen uri ''swift'' 1 content)) c)
                        \<lparr>openFiles := (openFiles c)(uri \<mapsto> FileInfo 1 content)\<rparr>)
      | ThrowsSync e \<Rightarrow> (Some (Inl e), perform (SendNotification (DidOpen uri ''swift'' 1 content)) c)
      | Rejects e \<Rightarrow> (Some (Inl e), perform (SendNotification (DidOpen uri ''swift'' 1 content)) c)
      | NeverSettles \<Rightarrow> (None, perform (SendNotification (DidOpen uri ''swift'' 1 content)) c))"
  by (simp add: openFile_def awaitNotification_def split: notify_outcome.splits)

lemma openFile_changed:
  "openFiles c uri = Some existing \<Longrightarrow> file_content existing \<noteq> content \<Longrightarrow>
   openFile conn uri content c =
     (case notifyOutcome conn (DidChange uri (file_version existing + 1) content) of
        Resolves \<Rightarrow> (Some (Inr ()), (perform (SendNotification (DidChange uri (file_version existing + 1) content)) c)
                        \<lparr>openFiles := (openFiles c)(uri \<mapsto> FileInfo (file_version existing + 1) content)\<rparr>)
      | ThrowsSync e \<Rightarrow> (Some (Inl e), perform (SendNotification (DidChange uri (file_version existing + 1) content)) c)
      | Rejects e \<Rightarrow> (Some (Inl e), perform (SendNotification (DidChange uri (file_version existing + 1) content)) c)
      | NeverSettles \<Rightarrow> (None, perform (SendNotification (DidChange uri (file_version existing + 1) content)) c))"
  by (simp add: openFile_def updateFile_def awaitNotification_def split: notify_outcome.splits)

lemma openFile_success_tracks:
  assumes "openFile conn uri content c = (Some (Inr ()), c1)"
  shows "\<exists>v. openFiles c1 uri = Some (FileInfo v content)"
proof (cases "openFiles c uri")
  case None
  with assms show ?thesis
    by (auto simp: openFile_untracked split: notify_outcome.splits)
next
  case (Some existing)
  show ?thesis
  proof (cases "file_content existing = content")
    case True
    with Some assms have "c1 = c" by (simp add: openFile_def)
    with Some True show ?thesis by (cases existing) auto
  next
    case False
    with Some assms show ?thesis
      by (auto simp: openFile_changed split: notify_outcome.splits)
  qed
qed

text \<open>
  Whatever the state before, a call of \<open>openFile\<close> that completed makes every repetition
  with the same content a no-op, also on a connection that refuses everything.
\<close>

lemma openFile_idempotent:
  assumes "openFile conn uri content c = (Some (Inr ()), c1)"
  shows "openFile conn' uri content c1 = (Some (Inr ()), c1)"
  using openFile_success_tracks [OF assms] by (auto intro: openFile_tracked_same)

lemma exampleClient_tracked:
  "openFiles exampleClient exampleUri = Some (FileInfo 1 ''let x: String'')"
  by (simp add: exampleClient_def openFile_untracked newClient_def liveConnection_def)

text \<open>
  When the second call is made after the first has completed, the repetition is a
  no-op: for a URI that is not yet tracked and a connection that accepts the open
  notification, the two calls send exactly one \<open>textDocument/didOpen\<close> (version 1, the
  full content) and no \<open>textDocument/didChange\<close>, and the second call returns without
  changing the client at all, whatever the connection does by then.
\<close>

lemma openFile_repeated:
  assumes untracked: "openFiles c uri = None"
      and accepted: "notifyOutcome conn (DidOpen uri ''swift'' 1 content) = Resolves"
  shows "\<exists>c1. openFile conn uri content c = (Some (Inr ()), c1)
            \<and> openFile conn' uri content c1 = (Some (Inr ()), c1)
            \<and> emittedSince c (snd (openFile conn' uri content c1)) =
                 [SendNotification (DidOpen uri ''swift'' 1 content)]
            \<and> length (filter isDidOpen (emittedSince c (snd (openFile conn' uri content c1)))) = 1
            \<and> length (filter isDidChange (emittedSince c (snd (openFile conn' uri content c1)))) = 0
            \<and> openFiles c1 = (openFiles c)(uri \<mapsto> FileInfo 1 content)"
proof -
  define c1 where "c1 = (perform (SendNotification (DidOpen uri ''swift'' 1 content)) c)
                   \<lparr>openFiles := (openFiles c)(uri \<mapsto> FileInfo 1 content)\<rparr>"
  have first: "openFile conn uri content c = (Some (Inr ()), c1)"
    using untracked accepted by (simp add: openFile_untracked c1_def)
  have again: "openFile conn' uri content c1 = (Some (Inr ()), c1)"
    using first by (rule openFile_idempotent)
  have emitted: "emittedSince c c1 = [SendNotification (DidOpen uri ''swift'' 1 content)]"
    by (simp add: c1_def emittedSince_def)
  have tracker: "openFiles c1 = (openFiles c)(uri \<mapsto> FileInfo 1 content)"
    by (simp add: c1_def)
  show ?thesis
    using first again emitted tracker by simp
qed

lemma openFile_repeated_example:
  "openFile deadConnection exampleUri ''let x: String'' exampleClient = (Some (Inr ()), exampleClient)
   \<and> emittedSince newClient exampleClient =
       [SendNotification (DidOpen exampleUri ''swift'' 1 ''let x: String'')]"
proof -
  have untracked: "openFiles newClient exampleUri = None"
    by (simp add: newClient_def)
  have accepted: "notifyOutcome liveConnection (DidOpen exampleUri ''swift'' 1 ''let x: String'') = Resolves"
    by (simp add: liveConnection_def)
  show ?thesis
    using openFile_repeated [OF untracked accepted, of deadConnection]
    by (auto simp: exampleClient_def)
qed

lemma openFile_phases:
  "openFile conn uri content c =
     (case openFileStart conn uri content c of (suspended, c1) \<Rightarrow> openFileResume uri suspended c1)"
  by (simp add: openFile_def openFileStart_def openFileResume_def updateFile_def
      awaitNotification_def Let_def perform_def split: option.splits notify_outcome.splits)

lemma openFileOverlapped_untracked:
  assumes untracked: "openFiles c uri = None"
      and accepted: "notifyOutcome conn (DidOpen uri ''swift'' 1 content) = Resolves"
  shows "fst (openFileOverlapped conn uri content c) = (Some (Inr ()), Some (Inr ()))"
    and "emittedSince c (snd (openFileOverlapped conn uri content c)) =
           [SendNotification (DidOpen uri ''swift'' 1 content),
            SendNotification (DidOpen uri ''swift'' 1 content)]"
    and "openFiles (snd (openFileOverlapped conn uri content c)) = (openFiles c)(uri \<mapsto> FileInfo 1 content)"
  using assms
  by (simp_all add: openFileOverlapped_def openFileStart_def openFileResume_def emittedSince_def)

text \<open>
  Claim C2, on the code. Two calls of \<open>openFile\<close> for the same new URI and the same
  content, the second made before the first has completed, both complete normally and
  send two \<open>textDocument/didOpen\<close> notifications: the first call stores its entry only
  after its \<open>await\<close>, so the second finds none.
\<close>

theorem openFile_overlapped_opens_twice:
  "fst (openFileOverlapped liveConnection exampleUri ''let x: String'' newClient) =
     (Some (Inr ()), Some (Inr ()))
   \<and> emittedSince newClient (snd (openFileOverlapped liveConnection exampleUri ''let x: String'' newClient)) =
       [SendNotification (DidOpen exampleUri ''swift'' 1 ''let x: String''),
        SendNotification (DidOpen exampleUri ''swift'' 1 ''let x: String'')]
   \<and> length (filter isDidOpen
         (emittedSince newClient
            (snd (openFileOverlapped liveConnection exampleUri ''let x: String'' newClient)))) = 2"
proof -
  have untracked: "openFiles newClient exampleUri = None"
    by (simp add: newClient_def)
  have accepted: "notifyOutcome liveConnection (DidOpen exampleUri ''swift'' 1 ''let x: String'') = Resolves"
    by (simp add: liveConnection_def)
  show ?thesis
    by (simp add: openFileOverlapped_untracked [OF untracked accepted])
qed

text \<open>
  Claim C3. The first open of a URI stores version 1. Re-opening a tracked URI with a
  content different from the stored one, on a connection that accepts the notification,
  stores the old version plus one together with the new content, and sends exactly one
  \<open>textDocument/didChange\<close>, which carries that new version and the whole new content,
  and no \<open>textDocument/didOpen\<close>.
\<close>

theorem openFile_changed_content:
  "(openFiles c uri = None \<and> notifyOutcome conn (DidOpen uri ''swift'' 1 content) = Resolves \<longrightarrow>
      getFileVersion uri (snd (openFile conn uri content c)) = Some 1)
   \<and> (\<forall>existing.
        openFiles c uri = Some existing \<and> file_content existing \<noteq> content
        \<and> notifyOutcome conn (DidChange uri (file_version existing + 1) content) = Resolves \<longrightarrow>
        (\<exists>c1. openFile conn uri content c = (Some (Inr ()), c1)
            \<and> openFiles c1 = (openFiles c)(uri \<mapsto> FileInfo (file_version existing + 1) content)
            \<and> getFileVersion uri c1 = Some (file_version existing + 1)
            \<and> emittedSince c c1 = [SendNotification (DidChange uri (file_version existing + 1) content)]
            \<and> length (filter isDidChange (emittedSince c c1)) = 1
            \<and> length (filter isDidOpen (emittedSince c c1)) = 0))"
  by (simp add: openFile_untracked openFile_changed emittedSince_def getFileVersion_def)

theorem openFile_changed_content_witness:
  "getFileVersion exampleUri (snd (openFile liveConnection exampleUri ''let x: String'' newClient)) = Some 1
   \<and> (\<exists>c1. openFile liveConnection exampleUri ''let x: Int'' exampleClient = (Some (Inr ()), c1)
        \<and> getFileVersion exampleUri c1 = Some 2
        \<and> emittedSince exampleClient c1 = [SendNotification (DidChange exampleUri 2 ''let x: Int'')])"
proof -
  have untracked: "openFiles newClient exampleUri = None"
    by (simp add: newClient_def)
  have accepted: "notifyOutcome liveConnection n = Resolves" for n
    by (simp add: liveConnection_def)
  have changed: "file_content (FileInfo 1 ''let x: String'') \<noteq> ''let x: Int''"
    by simp
  have first: "getFileVersion exampleUri (snd (openFile liveConnection exampleUri ''let x: String'' newClient)) = Some 1"
    using openFile_changed_content [of newClient exampleUri liveConnection "''let x: String''"]
      untracked accepted by blast
  have second: "\<exists>c1. openFile liveConnection exampleUri ''let x: Int'' exampleClient = (Some (Inr ()), c1)
        \<and> getFileVersion exampleUri c1 = Some 2
        \<and> emittedSince exampleClient c1 = [SendNotification (DidChange exampleUri 2 ''let x: Int'')]"
    using openFile_changed_content [of exampleClient exampleUri liveConnection "''let x: Int''"]
      exampleClient_tracked changed accepted by fastforce
  show ?thesis
    using first second by blast
qed

subsection \<open>Diagnostics cache\<close>

lemma step_diagnosticsCache:
  "diagnosticsCache (step ev c) =
     (case ev of Published params \<Rightarrow> (diagnosticsCache c)(pd_uri params \<mapsto> pd_diagnostics params)
      | _ \<Rightarrow> diagnosticsCache c)"
proof (cases ev)
  case (OpenFileCall conn uri content)
  then show ?thesis
    by (simp add: openFile_def updateFile_def awaitNotification_def
        split: option.splits notify_outcome.splits)
next
  case (OpenFileStarted conn uri content)
  then show ?thesis
    by (simp add: openFileStart_def Let_def split: option.splits)
next
  case (OpenFileResumed uri suspended)
  then show ?thesis
    by (simp add: openFileResume_def split: option.splits prod.splits notify_outcome.splits)
next
  case (CloseFileCall conn uri)
  then show ?thesis
    by (simp add: closeFile_def awaitNotification_def split: notify_outcome.splits)
next
  case (ShutdownCall conn)
  then show ?thesis
    by (simp add: shutdown_def fireNotification_def Let_def
        split: option.splits sum.splits notify_outcome.splits)
qed (simp_all add: onPublishDiagnostics_def onProcessExit_def hover_def definition_at_def
      references_def workspaceSymbols_def)

lemma published_append: "published (evs @ evs') = published evs @ published evs'"
  by (induction evs rule: published.induct) simp_all

lemma run_snoc: "run (evs @ [ev]) c = step ev (run evs c)"
  by (simp add: run_def)

lemma last_case_snoc:
  "(case xs @ [x] of [] \<Rightarrow> d | y # ys \<Rightarrow> f (last (y # ys))) = f x"
  by (cases xs) simp_all

lemma getDiagnostics_step:
  "getDiagnostics uri (step ev c) =
     (case ev of
        Published params \<Rightarrow> if pd_uri params = uri then pd_diagnostics params else getDiagnostics uri c
      | _ \<Rightarrow> getDiagnostics uri c)"
  by (simp add: getDiagnostics_def step_diagnosticsCache split: event.splits)

lemma getDiagnostics_run:
  "getDiagnostics uri (run evs c) =
     (case filter (\<lambda>params. pd_uri params = uri) (published evs) of
        [] \<Rightarrow> getDiagnostics uri c
      | ps \<Rightarrow> pd_diagnostics (last ps))"
proof (induction evs rule: rev_induct)
  case Nil
  show ?case by (simp add: run_def)
next
  case (snoc ev evs)
  show ?case
    unfolding run_snoc getDiagnostics_step published_append
    using snoc by (cases ev) (simp_all add: last_case_snoc)
qed

text \<open>
  Claim C4. After any sequence of client operations, process events and inbound
  notifications on a new client, \<open>getDiagnostics\<close> returns, for every URI, the
  diagnostics array of the last \<open>textDocument/publishDiagnostics\<close> notification received
  for that URI, unmerged with earlier ones, and the empty array when none was received.
\<close>

theorem getDiagnostics_latest:
  "getDiagnostics uri (run evs newClient) = latestDiagnostics uri evs"
proof -
  have "getDiagnostics uri newClient = []"
    by (simp add: getDiagnostics_def newClient_def)
  then show ?thesis
    by (simp add: getDiagnostics_run latestDiagnostics_def split: list.splits)
qed

section \<open>Properties of the translation layer\<close>

lemma ensureOpen_cases:
  "ensureOpen host file uri c =
     (case readFile host file of
        None \<Rightarrow> (None, c)
      | Some (Inl e) \<Rightarrow> (Some (Inl (rethrown file e)), c)
      | Some (Inr content) \<Rightarrow>
          (case fst (openFile (connection host) uri content c) of
             None \<Rightarrow> (None, snd (openFile (connection host) uri content c))
           | Some (Inl e) \<Rightarrow> (Some (Inl (rethrown file e)), snd (openFile (connection host) uri content c))
           | Some (Inr u) \<Rightarrow> (Some (Inr ()), snd (openFile (connection host) uri content c))))"
  by (simp add: ensureOpen_def split: option.splits sum.splits prod.splits)

lemma hoverExecute_response:
  "fst (hoverExecute host file line column c) =
     (case readFile host file of
        None \<Rightarrow> None
      | Some (Inl e) \<Rightarrow>
          Some (Inr (TextContent (''Failed to get hover information: '' @ thrownText (rethrown file e))))
      | Some (Inr content) \<Rightarrow>
          (case fst (openFile (connection host) (fileUri host file) content c) of
             None \<Rightarrow> None
           | Some (Inl e) \<Rightarrow>
               Some (Inr (TextContent (''Failed to get hover information: '' @ thrownText (rethrown file e))))
           | Some (Inr u) \<Rightarrow>
               (case hoverOutcome (connection host) (fileUri host file) (Position (line - 1) (column - 1)) of
                  None \<Rightarrow> None
                | Some (Inl e) \<Rightarrow>
                    Some (Inr (TextContent (''Failed to get hover information: '' @ thrownText e)))
                | Some (Inr result) \<Rightarrow> Some (Inr (TextContent (renderHover result))))))"
  by (simp add: hoverExecute_def ensureOpen_cases catchAs_def hover_def Let_def
      split: option.splits sum.splits prod.splits)

lemma definitionExecute_response:
  "fst (definitionExecute host file line column c) =
     (case readFile host file of
        None \<Rightarrow> None
      | Some (Inl e) \<Rightarrow>
          Some (Inr (TextContent (''Failed to find definition: '' @ thrownText (rethrown file e))))
      | Some (Inr content) \<Rightarrow>
          (case fst (openFile (connection host) (fileUri host file) content c) of
             None \<Rightarrow> None
           | Some (Inl e) \<Rightarrow>
               Some (Inr (TextContent (''Failed to find definition: '' @ thrownText (rethrown file e))))
           | Some (Inr u) \<Rightarrow>
               (case definitionOutcome (connection host) (fileUri host file) (Position (line - 1) (column - 1)) of
                  None \<Rightarrow> None
                | Some (Inl e) \<Rightarrow>
                    Some (Inr (TextContent (''Failed to find definition: '' @ thrownText e)))
                | Some (Inr result) \<Rightarrow> Some (Inr (TextContent (renderDefinition host result))))))"
  by (simp add: definitionExecute_def ensureOpen_cases catchAs_def definition_at_def Let_def
      split: option.splits sum.splits prod.splits)

lemma referencesExecute_response:
  "fst (referencesExecute host file line column incl c) =
     (case readFile host file of
        None \<Rightarrow> None
      | Some (Inl e) \<Rightarrow>
          Some (Inr (TextContent (''Failed to find references: '' @ thrownText (rethrown file e))))
      | Some (Inr content) \<Rightarrow>
          (case fst (openFile (connection host) (fileUri host file) content c) of
             None \<Rightarrow> None
           | Some (Inl e) \<Rightarrow>
               Some (Inr (TextContent (''Failed to find references: '' @ thrownText (rethrown file e))))
           | Some (Inr u) \<Rightarrow>
               (case referencesOutcome (connection host) (fileUri host file)
                       (Position (line - 1) (column - 1)) (case incl of None \<Rightarrow> True | Some b \<Rightarrow> b) of
                  None \<Rightarrow> None
                | Some (Inl e) \<Rightarrow>
                    Some (Inr (TextContent (''Failed to find references: '' @ thrownText e)))
                | Some (Inr result) \<Rightarrow> Some (Inr (TextContent (renderReferences host result))))))"
  by (simp add: referencesExecute_def ensureOpen_cases catchAs_def references_def Let_def
      split: option.splits sum.splits prod.splits)

lemma symbolsExecute_response:
  "fst (symbolsExecute host query c) =
     (case symbolOutcome (connection host) query of
        None \<Rightarrow> None
      | Some (Inl e) \<Rightarrow> Some (Inr (TextContent (''Failed to search symbols: '' @ thrownText e)))
      | Some (Inr result) \<Rightarrow> Some (Inr (TextContent (renderSymbols host query result))))"
  by (simp add: symbolsExecute_def catchAs_def workspaceSymbols_def
      split: option.splits sum.splits prod.splits)

lemma diagnosticsExecute_response:
  "fst (diagnosticsExecute host file c) =
     (case readFile host file of
        None \<Rightarrow> None
      | Some (Inl e) \<Rightarrow>
          Some (Inr (TextContent (''Failed to get diagnostics: '' @ thrownText (rethrown file e))))
      | Some (Inr content) \<Rightarrow>
          (case fst (openFile (connection host) (fileUri host file) content c) of
             None \<Rightarrow> None
           | Some (Inl e) \<Rightarrow>
               Some (Inr (TextContent (''Failed to get diagnostics: '' @ thrownText (rethrown file e))))
           | Some (Inr u) \<Rightarrow>
               Some (Inr (TextContent (renderDiagnostics
                 (getDiagnostics (fileUri host file)
                    (fold onPublishDiagnostics (arrivals host)
                       (snd (openFile (connection host) (fileUri host file) content c)))))))))"
  by (simp add: diagnosticsExecute_def ensureOpen_cases catchAs_def Let_def
      split: option.splits sum.splits prod.splits)


lemma exampleHost_reads: "readFile exampleHost ''/test/file.swift'' = Some (Inr ''let x: String'')"
  by (simp add: exampleHost_def)

lemma exampleHost_opens:
  "openFile (connection exampleHost) (fileUri exampleHost ''/test/file.swift'') ''let x: String'' newClient =
     (Some (Inr ()), (perform (SendNotification (DidOpen ''file:///test/file.swift'' ''swift'' 1 ''let x: String'')) newClient)
        \<lparr>openFiles := (openFiles newClient)(''file:///test/file.swift'' \<mapsto> FileInfo 1 ''let x: String'')\<rparr>)"
  by (simp add: exampleHost_def openFile_untracked newClient_def liveConnection_def)


lemma hoverExecute_returns: "fst (hoverExecute host file line column c) \<noteq> Some (Inl e)"
  by (simp add: hoverExecute_response split: option.splits sum.splits)

lemma definitionExecute_returns: "fst (definitionExecute host file line column c) \<noteq> Some (Inl e)"
  by (simp add: definitionExecute_response split: option.splits sum.splits)

lemma referencesExecute_returns: "fst (referencesExecute host file line column incl c) \<noteq> Some (Inl e)"
  by (simp add: referencesExecute_response split: option.splits sum.splits)

lemma symbolsExecute_returns: "fst (symbolsExecute host query c) \<noteq> Some (Inl e)"
  by (simp add: symbolsExecute_response split: option.splits sum.splits)

lemma diagnosticsExecute_returns: "fst (diagnosticsExecute host file c) \<noteq> Some (Inl e)"
  by (simp add: diagnosticsExecute_response split: option.splits sum.splits)




lemma renderHover_nonempty: "renderHover result \<noteq> []"
  by (simp add: renderHover_def Let_def split: option.splits HoverContents.splits)

lemma renderDefinition_nonempty: "renderDefinition host result \<noteq> []"
  by (simp add: renderDefinition_def Let_def split: DefinitionResult.splits)

lemma renderReferences_nonempty: "renderReferences host result \<noteq> []"
  by (simp add: renderReferences_def Let_def split: option.splits)

lemma renderSymbols_nonempty: "renderSymbols host query result \<noteq> []"
  by (simp add: renderSymbols_def Let_def split: option.splits)

lemma renderDiagnostics_nonempty: "renderDiagnostics diagnostics \<noteq> []"
  by (simp add: renderDiagnostics_def)

lemma hoverExecute_effects:
  assumes "readFile host file = Some (Inr content)"
      and "fst (openFile (connection host) (fileUri host file) content c) = Some (Inr ())"
  shows "effects (snd (hoverExecute host file line column c)) =
           effects (snd (openFile (connection host) (fileUri host file) content c))
           @ [SendRequest (HoverRequest (fileUri host file) (Position (line - 1) (column - 1)))]"
  using assms
  by (simp add: hoverExecute_def ensureOpen_cases catchAs_def hover_def Let_def
      split: option.splits sum.splits prod.splits)

lemma definitionExecute_effects:
  assumes "readFile host file = Some (Inr content)"
      and "fst (openFile (connection host) (fileUri host file) content c) = Some (Inr ())"
  shows "effects (snd (definitionExecute host file line column c)) =
           effects (snd (openFile (connection host) (fileUri host file) content c))
           @ [SendRequest (DefinitionRequest (fileUri host file) (Position (line - 1) (column - 1)))]"
  using assms
  by (simp add: definitionExecute_def ensureOpen_cases catchAs_def definition_at_def Let_def
      split: option.splits sum.splits prod.splits)

lemma referencesExecute_effects:
  assumes "readFile host file = Some (Inr content)"
      and "fst (openFile (connection host) (fileUri host file) content c) = Some (Inr ())"
  shows "effects (snd (referencesExecute host file line column incl c)) =
           effects (snd (openFile (connection host) (fileUri host file) content c))
           @ [SendRequest (ReferencesRequest (fileUri host file) (Position (line - 1) (column - 1))
                (case incl of None \<Rightarrow> True | Some b \<Rightarrow> b))]"
  using assms
  by (simp add: referencesExecute_def ensureOpen_cases catchAs_def references_def Let_def
      split: option.splits sum.splits prod.splits)

lemma formatLocation_unfold:
  "formatLocation host =
     (\<lambda>location. fsPath host (loc_uri location)
        @ '':'' @ showInt (pos_line (range_start (loc_range location)) + 1)
        @ '':'' @ showInt (pos_character (range_start (loc_range location)) + 1))"
  by (rule ext) (simp add: formatLocation_def Let_def)

lemma formatSymbol_unfold:
  "formatSymbol host =
     (\<lambda>symbol. sym_name symbol @ '' ('' @ symbolKindToString (sym_kind symbol) @ '')''
        @ (case sym_containerName symbol of
             None \<Rightarrow> []
           | Some container \<Rightarrow> if container = [] then [] else '' in '' @ container)
        @ '' - '' @ fsPath host (loc_uri (sym_location symbol))
        @ '':'' @ showInt (pos_line (range_start (loc_range (sym_location symbol))) + 1))"
  by (rule ext) (simp add: formatSymbol_def Let_def split: option.splits)

lemma diagnosticLine_unfold:
  "diagnosticLine =
     (\<lambda>diagnostic.
        severityToString (case diag_severity diagnostic of None \<Rightarrow> 1 | Some s \<Rightarrow> if s = 0 then 1 else s)
        @ '' at '' @ showInt (pos_line (range_start (diag_range diagnostic)) + 1)
        @ '':'' @ showInt (pos_character (range_start (diag_range diagnostic)) + 1)
        @ '': '' @ diag_message diagnostic
        @ (case diag_source diagnostic of
             None \<Rightarrow> []
           | Some src \<Rightarrow> if src = [] then [] else '' ['' @ src @ '']''))"
  by (rule ext) (simp add: diagnosticLine_def Let_def)

lemma renderDefinition_one:
  "renderDefinition host (DefinitionOne location) = ''Definition found at: '' @ formatLocation host location"
  by (simp add: renderDefinition_def Let_def)

lemma renderDefinition_single:
  "length locations = 1 \<Longrightarrow>
   renderDefinition host (DefinitionMany locations) =
     ''Definition found at: '' @ formatLocation host (hd locations)"
  by (cases locations) (simp_all add: renderDefinition_def Let_def)

lemma renderDefinition_many:
  "2 \<le> length locations \<Longrightarrow>
   renderDefinition host (DefinitionMany locations) =
     ''Multiple definitions found:'' @ newline @ bullets (map (formatLocation host) locations)"
  by (auto simp: renderDefinition_def Let_def)

lemma renderReferences_some:
  "locations \<noteq> [] \<Longrightarrow>
   renderReferences host (Some locations) =
     ''Found '' @ showNat (length locations) @ '' reference'' @ plural (length locations) @ '':''
     @ newline @ bullets (map (formatLocation host) locations)"
  by (simp add: renderReferences_def Let_def)

lemma renderSymbols_some:
  "found \<noteq> [] \<Longrightarrow>
   renderSymbols host query (Some found) =
     ''Found '' @ showNat (length found) @ '' symbol'' @ plural (length found)
     @ '' matching '' @ quoted query @ '':'' @ newline @ bullets (map (formatSymbol host) found)"
  by (simp add: renderSymbols_def Let_def)

lemma renderDiagnostics_some:
  "diagnostics \<noteq> [] \<Longrightarrow>
   renderDiagnostics diagnostics =
     ''Found '' @ showNat (length diagnostics) @ '' diagnostic'' @ plural (length diagnostics)
     @ '' ('' @ diagnosticsSummary diagnostics @ ''):'' @ newline
     @ bullets (map diagnosticLine diagnostics)"
  by (simp add: renderDiagnostics_def)

text \<open>
  Claim C8. Once the document is open, the hover, definition and references tools issue
  exactly one request, whose position is \<open>{line: line - 1, character: column - 1}\<close>.
  Every location of a definition reply (a single location, an array of one, an array of
  several) and of a references reply is rendered as path, start line plus one and start
  character plus one; a workspace symbol is rendered with its start line plus one, a
  diagnostic with its start line plus one and start character plus one.
\<close>

theorem positions_converted:
  "(\<forall>content. readFile host file = Some (Inr content)
        \<and> fst (openFile (connection host) (fileUri host file) content c) = Some (Inr ()) \<longrightarrow>
        effects (snd (hoverExecute host file line column c)) =
          effects (snd (openFile (connection host) (fileUri host file) content c))
          @ [SendRequest (HoverRequest (fileUri host file) (Position (line - 1) (column - 1)))]
      \<and> effects (snd (definitionExecute host file line column c)) =
          effects (snd (openFile (connection host) (fileUri host file) content c))
          @ [SendRequest (DefinitionRequest (fileUri host file) (Position (line - 1) (column - 1)))]
      \<and> effects (snd (referencesExecute host file line column incl c)) =
          effects (snd (openFile (connection host) (fileUri host file) content c))
          @ [SendRequest (ReferencesRequest (fileUri host file) (Position (line - 1) (column - 1))
               (case incl of None \<Rightarrow> True | Some b \<Rightarrow> b))]
      \<and> (\<forall>location.
            definitionOutcome (connection host) (fileUri host file) (Position (line - 1) (column - 1))
              = Some (Inr (DefinitionOne location)) \<longrightarrow>
            fst (definitionExecute host file line column c) =
              Some (Inr (TextContent (''Definition found at: '' @ fsPath host (loc_uri location)
                @ '':'' @ showInt (pos_line (range_start (loc_range location)) + 1)
                @ '':'' @ showInt (pos_character (range_start (loc_range location)) + 1)))))
      \<and> (\<forall>location.
            definitionOutcome (connection host) (fileUri host file) (Position (line - 1) (column - 1))
              = Some (Inr (DefinitionMany [location])) \<longrightarrow>
            fst (definitionExecute host file line column c) =
              Some (Inr (TextContent (''Definition found at: '' @ fsPath host (loc_uri location)
                @ '':'' @ showInt (pos_line (range_start (loc_range location)) + 1)
                @ '':'' @ showInt (pos_character (range_start (loc_range location)) + 1)))))
      \<and> (\<forall>locations.
            definitionOutcome (connection host) (fileUri host file) (Position (line - 1) (column - 1))
              = Some (Inr (DefinitionMany locations)) \<and> 2 \<le> length locations \<longrightarrow>
            fst (definitionExecute host file line column c) =
              Some (Inr (TextContent (''Multiple definitions found:'' @ newline @ bullets
                (map (\<lambda>location. fsPath host (loc_uri location)
                        @ '':'' @ showInt (pos_line (range_start (loc_range location)) + 1)
                        @ '':'' @ showInt (pos_character (range_start (loc_range location)) + 1))
                   locations)))))
      \<and> (\<forall>locations.
            referencesOutcome (connection host) (fileUri host file) (Position (line - 1) (column - 1))
              (case incl of None \<Rightarrow> True | Some b \<Rightarrow> b) = Some (Inr (Some locations))
            \<and> locations \<noteq> [] \<longrightarrow>
            fst (referencesExecute host file line column incl c) =
              Some (Inr (TextContent (''Found '' @ showNat (length locations) @ '' reference''
                @ plural (length locations) @ '':'' @ newline @ bullets
                (map (\<lambda>location. fsPath host (loc_uri location)
                        @ '':'' @ showInt (pos_line (range_start (loc_range location)) + 1)
                        @ '':'' @ showInt (pos_character (range_start (loc_range location)) + 1))
                   locations)))))
      \<and> (\<forall>diagnostics.
            getDiagnostics (fileUri host file)
              (fold onPublishDiagnostics (arrivals host)
                 (snd (openFile (connection host) (fileUri host file) content c))) = diagnostics
            \<and> diagnostics \<noteq> [] \<longrightarrow>
            fst (diagnosticsExecute host file c) =
              Some (Inr (TextContent (''Found '' @ showNat (length diagnostics) @ '' diagnostic''
                @ plural (length diagnostics) @ '' ('' @ diagnosticsSummary diagnostics @ ''):''
                @ newline @ bullets
                (map (\<lambda>diagnostic.
                        severityToString
                          (case diag_severity diagnostic of None \<Rightarrow> 1 | Some s \<Rightarrow> if s = 0 then 1 else s)
                        @ '' at '' @ showInt (pos_line (range_start (diag_range diagnostic)) + 1)
                        @ '':'' @ showInt (pos_character (range_start (diag_range diagnostic)) + 1)
                        @ '': '' @ diag_message diagnostic
                        @ (case diag_source diagnostic of
                             None \<Rightarrow> []
                           | Some src \<Rightarrow> if src = [] then [] else '' ['' @ src @ '']''))
                   diagnostics))))))
   \<and> (\<forall>found. symbolOutcome (connection host) query = Some (Inr (Some found)) \<and> found \<noteq> [] \<longrightarrow>
        fst (symbolsExecute host query c) =
          Some (Inr (TextContent (''Found '' @ showNat (length found) @ '' symbol''
            @ plural (length found) @ '' matching '' @ quoted query @ '':'' @ newline @ bullets
            (map (\<lambda>symbol. sym_name symbol @ '' ('' @ symbolKindToString (sym_kind symbol) @ '')''
                    @ (case sym_containerName symbol of
                         None \<Rightarrow> []
                       | Some container \<Rightarrow> if container = [] then [] else '' in '' @ container)
                    @ '' - '' @ fsPath host (loc_uri (sym_location symbol))
                    @ '':'' @ showInt (pos_line (range_start (loc_range (sym_location symbol))) + 1))
               found)))))"
proof (intro conjI allI impI; (elim conjE)?)
  fix content
  assume ready: "readFile host file = Some (Inr content)"
    "fst (openFile (connection host) (fileUri host file) content c) = Some (Inr ())"
  show "effects (snd (hoverExecute host file line column c)) =
          effects (snd (openFile (connection host) (fileUri host file) content c))
          @ [SendRequest (HoverRequest (fileUri host file) (Position (line - 1) (column - 1)))]"
    using ready by (rule hoverExecute_effects)
  show "effects (snd (definitionExecute host file line column c)) =
          effects (snd (openFile (connection host) (fileUri host file) content c))
          @ [SendRequest (DefinitionRequest (fileUri host file) (Position (line - 1) (column - 1)))]"
    using ready by (rule definitionExecute_effects)
  show "effects (snd (referencesExecute host file line column incl c)) =
          effects (snd (openFile (connection host) (fileUri host file) content c))
          @ [SendRequest (ReferencesRequest (fileUri host file) (Position (line - 1) (column - 1))
               (case incl of None \<Rightarrow> True | Some b \<Rightarrow> b))]"
    using ready by (rule referencesExecute_effects)
next
  fix content location
  assume "readFile host file = Some (Inr content)"
    "fst (openFile (connection host) (fileUri host file) content c) = Some (Inr ())"
    "definitionOutcome (connection host) (fileUri host file) (Position (line - 1) (column - 1))
       = Some (Inr (DefinitionOne location))"
  then show "fst (definitionExecute host file line column c) =
              Some (Inr (TextContent (''Definition found at: '' @ fsPath host (loc_uri location)
                @ '':'' @ showInt (pos_line (range_start (loc_range location)) + 1)
                @ '':'' @ showInt (pos_character (range_start (loc_range location)) + 1))))"
    by (simp add: definitionExecute_response renderDefinition_one formatLocation_unfold)
next
  fix content location
  assume "readFile host file = Some (Inr content)"
    "fst (openFile (connection host) (fileUri host file) content c) = Some (Inr ())"
    "definitionOutcome (connection host) (fileUri host file) (Position (line - 1) (column - 1))
       = Some (Inr (DefinitionMany [location]))"
  then show "fst (definitionExecute host file line column c) =
              Some (Inr (TextContent (''Definition found at: '' @ fsPath host (loc_uri location)
                @ '':'' @ showInt (pos_line (range_start (loc_range location)) + 1)
                @ '':'' @ showInt (pos_character (range_start (loc_range location)) + 1))))"
    by (simp add: definitionExecute_response renderDefinition_single formatLocation_unfold)
next
  fix content locations
  assume "readFile host file = Some (Inr content)"
    "fst (openFile (connection host) (fileUri host file) content c) = Some (Inr ())"
    "definitionOutcome (connection host) (fileUri host file) (Position (line - 1) (column - 1))
       = Some (Inr (DefinitionMany locations))"
    "2 \<le> length locations"
  then show "fst (definitionExecute host file line column c) =
              Some (Inr (TextContent (''Multiple definitions found:'' @ newline @ bullets
                (map (\<lambda>location. fsPath host (loc_uri location)
                        @ '':'' @ showInt (pos_line (range_start (loc_range location)) + 1)
                        @ '':'' @ showInt (pos_character (range_start (loc_range location)) + 1))
                   locations))))"
    by (simp add: definitionExecute_response renderDefinition_many formatLocation_unfold)
next
  fix content locations
  assume "readFile host file = Some (Inr content)"
    "fst (openFile (connection host) (fileUri host file) content c) = Some (Inr ())"
    "referencesOutcome (connection host) (fileUri host file) (Position (line - 1) (column - 1))
       (case incl of None \<Rightarrow> True | Some b \<Rightarrow> b) = Some (Inr (Some locations))"
    "locations \<noteq> []"
  then show "fst (referencesExecute host file line column incl c) =
              Some (Inr (TextContent (''Found '' @ showNat (length locations) @ '' reference''
                @ plural (length locations) @ '':'' @ newline @ bullets
                (map (\<lambda>location. fsPath host (loc_uri location)
                        @ '':'' @ showInt (pos_line (range_start (loc_range location)) + 1)
                        @ '':'' @ showInt (pos_character (range_start (loc_range location)) + 1))
                   locations))))"
    by (simp add: referencesExecute_response renderReferences_some formatLocation_unfold)
next
  fix content diagnostics
  assume "readFile host file = Some (Inr content)"
    "fst (openFile (connection host) (fileUri host file) content c) = Some (Inr ())"
    "getDiagnostics (fileUri host file)
       (fold onPublishDiagnostics (arrivals host)
          (snd (openFile (connection host) (fileUri host file) content c))) = diagnostics"
    "diagnostics \<noteq> []"
  then show "fst (diagnosticsExecute host file c) =
              Some (Inr (TextContent (''Found '' @ showNat (length diagnostics) @ '' diagnostic''
                @ plural (length diagnostics) @ '' ('' @ diagnosticsSummary diagnostics @ ''):''
                @ newline @ bullets
                (map (\<lambda>diagnostic.
                        severityToString
                          (case diag_severity diagnostic of None \<Rightarrow> 1 | Some s \<Rightarrow> if s = 0 then 1 else s)
                        @ '' at '' @ showInt (pos_line (range_start (diag_range diagnostic)) + 1)
                        @ '':'' @ showInt (pos_character (range_start (diag_range diagnostic)) + 1)
                        @ '': '' @ diag_message diagnostic
                        @ (case diag_source diagnostic of
                             None \<Rightarrow> []
                           | Some src \<Rightarrow> if src = [] then [] else '' ['' @ src @ '']''))
                   diagnostics))))"
    by (simp add: diagnosticsExecute_response renderDiagnostics_some diagnosticLine_unfold)
next
  fix found
  assume "symbolOutcome (connection host) query = Some (Inr (Some found))" "found \<noteq> []"
  then show "fst (symbolsExecute host query c) =
          Some (Inr (TextContent (''Found '' @ showNat (length found) @ '' symbol''
            @ plural (length found) @ '' matching '' @ quoted query @ '':'' @ newline @ bullets
            (map (\<lambda>symbol. sym_name symbol @ '' ('' @ symbolKindToString (sym_kind symbol) @ '')''
                    @ (case sym_containerName symbol of
                         None \<Rightarrow> []
                       | Some container \<Rightarrow> if container = [] then [] else '' in '' @ container)
                    @ '' - '' @ fsPath host (loc_uri (sym_location symbol))
                    @ '':'' @ showInt (pos_line (range_start (loc_range (sym_location symbol))) + 1))
               found))))"
    by (simp add: symbolsExecute_response renderSymbols_some formatSymbol_unfold)
qed

lemma oneDefinitionHost_simps:
  "readFile oneDefinitionHost ''/test/file.swift'' = Some (Inr ''let x: String'')"
  "openFile (connection oneDefinitionHost) (fileUri oneDefinitionHost ''/test/file.swift'')
     ''let x: String'' newClient =
   openFile (connection exampleHost) (fileUri exampleHost ''/test/file.swift'') ''let x: String'' newClient"
  "definitionOutcome (connection oneDefinitionHost) u p = Some (Inr (DefinitionMany [oneLocation]))"
  "fsPath oneDefinitionHost = drop 7"
  by (simp_all add: oneDefinitionHost_def exampleHost_def openFile_def awaitNotification_def
      liveConnection_def newClient_def)

theorem positions_converted_witness:
  "effects (snd (hoverExecute exampleHost ''/test/file.swift'' 1 5 newClient)) =
     [SendNotification (DidOpen ''file:///test/file.swift'' ''swift'' 1 ''let x: String''),
      SendRequest (HoverRequest ''file:///test/file.swift'' (Position 0 4))]
   \<and> fst (referencesExecute exampleHost ''/test/file.swift'' 1 5 None newClient) =
     Some (Inr (TextContent (''Found 2 references:'' @ newline @ ''- /test/file.swift:1:5''
                        @ newline @ ''- /test/other.swift:10:1'')))
   \<and> fst (definitionExecute oneDefinitionHost ''/test/file.swift'' 1 5 newClient) =
     Some (Inr (TextContent ''Definition found at: /test/def.swift:3:7''))"
proof -
  have opened: "fst (openFile (connection exampleHost) (fileUri exampleHost ''/test/file.swift'')
                      ''let x: String'' newClient) = Some (Inr ())"
    by (simp add: exampleHost_opens)
  have reply: "referencesOutcome (connection exampleHost) (fileUri exampleHost ''/test/file.swift'')
                 (Position (1 - 1) (5 - 1)) (case None of None \<Rightarrow> True | Some b \<Rightarrow> b) =
               Some (Inr (Some exampleLocations)) \<and> exampleLocations \<noteq> []"
    by (simp add: exampleHost_def liveConnection_def exampleLocations_def)
  note inst = positions_converted [of exampleHost "''/test/file.swift''" newClient 1 5 None]
  have request: "effects (snd (hoverExecute exampleHost ''/test/file.swift'' 1 5 newClient)) =
     [SendNotification (DidOpen ''file:///test/file.swift'' ''swift'' 1 ''let x: String''),
      SendRequest (HoverRequest ''file:///test/file.swift'' (Position 0 4))]"
  proof -
    from inst exampleHost_reads opened
    have "effects (snd (hoverExecute exampleHost ''/test/file.swift'' 1 5 newClient)) =
          effects (snd (openFile (connection exampleHost) (fileUri exampleHost ''/test/file.swift'')
                          ''let x: String'' newClient))
          @ [SendRequest (HoverRequest (fileUri exampleHost ''/test/file.swift'') (Position (1 - 1) (5 - 1)))]"
      by blast
    then show ?thesis
      by (simp add: exampleHost_opens) (simp add: newClient_def exampleHost_def)
  qed
  have rendered: "fst (referencesExecute exampleHost ''/test/file.swift'' 1 5 None newClient) =
     Some (Inr (TextContent (''Found 2 references:'' @ newline @ ''- /test/file.swift:1:5''
                        @ newline @ ''- /test/other.swift:10:1'')))"
  proof -
    from inst exampleHost_reads opened reply
    have "fst (referencesExecute exampleHost ''/test/file.swift'' 1 5 None newClient) =
              Some (Inr (TextContent (''Found '' @ showNat (length exampleLocations) @ '' reference''
                @ plural (length exampleLocations) @ '':'' @ newline @ bullets
                (map (\<lambda>location. fsPath exampleHost (loc_uri location)
                        @ '':'' @ showInt (pos_line (range_start (loc_range location)) + 1)
                        @ '':'' @ showInt (pos_character (range_start (loc_range location)) + 1))
                   exampleLocations))))"
      by blast
    then show ?thesis
      by (simp add: exampleLocations_def exampleHost_def plural_def bullets_def showInt_def
          showNat.simps newline_def)
  qed
  have single: "fst (definitionExecute oneDefinitionHost ''/test/file.swift'' 1 5 newClient) =
     Some (Inr (TextContent ''Definition found at: /test/def.swift:3:7''))"
  proof -
    have ready: "readFile oneDefinitionHost ''/test/file.swift'' = Some (Inr ''let x: String'')
        \<and> fst (openFile (connection oneDefinitionHost) (fileUri oneDefinitionHost ''/test/file.swift'')
                      ''let x: String'' newClient) = Some (Inr ())"
      by (simp add: oneDefinitionHost_simps opened)
    have array: "definitionOutcome (connection oneDefinitionHost) (fileUri oneDefinitionHost ''/test/file.swift'')
                   (Position (1 - 1) (5 - 1)) = Some (Inr (DefinitionMany [oneLocation]))"
      by (simp add: oneDefinitionHost_simps)
    from positions_converted [of oneDefinitionHost "''/test/file.swift''" newClient 1 5 None] ready array
    have "fst (definitionExecute oneDefinitionHost ''/test/file.swift'' 1 5 newClient) =
              Some (Inr (TextContent (''Definition found at: '' @ fsPath oneDefinitionHost (loc_uri oneLocation)
                @ '':'' @ showInt (pos_line (range_start (loc_range oneLocation)) + 1)
                @ '':'' @ showInt (pos_character (range_start (loc_range oneLocation)) + 1))))"
      by blast
    then show ?thesis
      by (simp add: oneDefinitionHost_simps oneLocation_def showInt_def showNat.simps)
  qed
  show ?thesis using request rendered single by blast
qed

text \<open>
  Claim C9. Once the document is open, a reply that is \<open>null\<close> or empty is answered by
  an explicit message: no type information (hover \<open>null\<close>, without contents or with
  empty contents), no definition found (\<open>null\<close> or an empty array), no references found,
  no symbols found matching the query, no diagnostics found. And the text of a response
  that a tool returns is never empty.
\<close>

theorem absent_results_explained:
  "(\<forall>content. readFile host file = Some (Inr content)
        \<and> fst (openFile (connection host) (fileUri host file) content c) = Some (Inr ()) \<longrightarrow>
        (hoverOutcome (connection host) (fileUri host file) (Position (line - 1) (column - 1))
           \<in> {Some (Inr None), Some (Inr (Some (Hover None))),
               Some (Inr (Some (Hover (Some (ContentsString [])))))} \<longrightarrow>
         fst (hoverExecute host file line column c) =
           Some (Inr (TextContent ''No type information available at this position'')))
      \<and> (hoverOutcome (connection host) (fileUri host file) (Position (line - 1) (column - 1))
           \<in> {Some (Inr (Some (Hover (Some (ContentsMarkup kind []))))),
               Some (Inr (Some (Hover (Some (ContentsArray [])))))} \<longrightarrow>
         fst (hoverExecute host file line column c) =
           Some (Inr (TextContent ''No type information available'')))
      \<and> (definitionOutcome (connection host) (fileUri host file) (Position (line - 1) (column - 1))
           \<in> {Some (Inr DefinitionNull), Some (Inr (DefinitionMany []))} \<longrightarrow>
         fst (definitionExecute host file line column c) =
           Some (Inr (TextContent ''No definition found at this position'')))
      \<and> (referencesOutcome (connection host) (fileUri host file) (Position (line - 1) (column - 1))
             (case incl of None \<Rightarrow> True | Some b \<Rightarrow> b) \<in> {Some (Inr None), Some (Inr (Some []))} \<longrightarrow>
         fst (referencesExecute host file line column incl c) =
           Some (Inr (TextContent ''No references found for this symbol'')))
      \<and> (getDiagnostics (fileUri host file)
            (fold onPublishDiagnostics (arrivals host)
               (snd (openFile (connection host) (fileUri host file) content c))) = [] \<longrightarrow>
         fst (diagnosticsExecute host file c) =
           Some (Inr (TextContent ''No diagnostics (errors or warnings) found for this file''))))
   \<and> (symbolOutcome (connection host) query \<in> {Some (Inr None), Some (Inr (Some []))} \<longrightarrow>
        fst (symbolsExecute host query c) =
          Some (Inr (TextContent (''No symbols found matching '' @ quoted query))))
   \<and> (fst (hoverExecute host file line column c) = None
        \<or> (\<exists>t. t \<noteq> [] \<and> fst (hoverExecute host file line column c) = Some (Inr (TextContent t))))
   \<and> (fst (definitionExecute host file line column c) = None
        \<or> (\<exists>t. t \<noteq> [] \<and> fst (definitionExecute host file line column c) = Some (Inr (TextContent t))))
   \<and> (fst (referencesExecute host file line column incl c) = None
        \<or> (\<exists>t. t \<noteq> [] \<and> fst (referencesExecute host file line column incl c) = Some (Inr (TextContent t))))
   \<and> (fst (symbolsExecute host query c) = None
        \<or> (\<exists>t. t \<noteq> [] \<and> fst (symbolsExecute host query c) = Some (Inr (TextContent t))))
   \<and> (fst (diagnosticsExecute host file c) = None
        \<or> (\<exists>t. t \<noteq> [] \<and> fst (diagnosticsExecute host file c) = Some (Inr (TextContent t))))"
proof -
  have hover1: "renderHover None = ''No type information available at this position''"
    "renderHover (Some (Hover None)) = ''No type information available at this position''"
    "renderHover (Some (Hover (Some (ContentsString [])))) = ''No type information available at this position''"
    "renderHover (Some (Hover (Some (ContentsMarkup kind [])))) = ''No type information available''"
    "renderHover (Some (Hover (Some (ContentsArray [])))) = ''No type information available''"
    by (simp_all add: renderHover_def)
  have def1: "renderDefinition host DefinitionNull = ''No definition found at this position''"
    "renderDefinition host (DefinitionMany []) = ''No definition found at this position''"
    by (simp_all add: renderDefinition_def)
  have ref1: "renderReferences host None = ''No references found for this symbol''"
    "renderReferences host (Some []) = ''No references found for this symbol''"
    by (simp_all add: renderReferences_def)
  have sym1: "renderSymbols host query None = ''No symbols found matching '' @ quoted query"
    "renderSymbols host query (Some []) = ''No symbols found matching '' @ quoted query"
    by (simp_all add: renderSymbols_def)
  have diag1: "renderDiagnostics [] = ''No diagnostics (errors or warnings) found for this file''"
    by (simp add: renderDiagnostics_def)
  have absent: "\<forall>content. readFile host file = Some (Inr content)
        \<and> fst (openFile (connection host) (fileUri host file) content c) = Some (Inr ()) \<longrightarrow>
        (hoverOutcome (connection host) (fileUri host file) (Position (line - 1) (column - 1))
           \<in> {Some (Inr None), Some (Inr (Some (Hover None))),
               Some (Inr (Some (Hover (Some (ContentsString [])))))} \<longrightarrow>
         fst (hoverExecute host file line column c) =
           Some (Inr (TextContent ''No type information available at this position'')))
      \<and> (hoverOutcome (connection host) (fileUri host file) (Position (line - 1) (column - 1))
           \<in> {Some (Inr (Some (Hover (Some (ContentsMarkup kind []))))),
               Some (Inr (Some (Hover (Some (ContentsArray [])))))} \<longrightarrow>
         fst (hoverExecute host file line column c) =
           Some (Inr (TextContent ''No type information available'')))
      \<and> (definitionOutcome (connection host) (fileUri host file) (Position (line - 1) (column - 1))
           \<in> {Some (Inr DefinitionNull), Some (Inr (DefinitionMany []))} \<longrightarrow>
         fst (definitionExecute host file line column c) =
           Some (Inr (TextContent ''No definition found at this position'')))
      \<and> (referencesOutcome (connection host) (fileUri host file) (Position (line - 1) (column - 1))
             (case incl of None \<Rightarrow> True | Some b \<Rightarrow> b) \<in> {Some (Inr None), Some (Inr (Some []))} \<longrightarrow>
         fst (referencesExecute host file line column incl c) =
           Some (Inr (TextContent ''No references found for this symbol'')))
      \<and> (getDiagnostics (fileUri host file)
            (fold onPublishDiagnostics (arrivals host)
               (snd (openFile (connection host) (fileUri host file) content c))) = [] \<longrightarrow>
         fst (diagnosticsExecute host file c) =
           Some (Inr (TextContent ''No diagnostics (errors or warnings) found for this file'')))"
    using hover1 def1 ref1 diag1
    by (auto simp: hoverExecute_response definitionExecute_response referencesExecute_response
        diagnosticsExecute_response)
  have symbols: "symbolOutcome (connection host) query \<in> {Some (Inr None), Some (Inr (Some []))} \<longrightarrow>
        fst (symbolsExecute host query c) =
          Some (Inr (TextContent (''No symbols found matching '' @ quoted query)))"
    using sym1 by (auto simp: symbolsExecute_response)
  have hover_text: "fst (hoverExecute host file line column c) = None
        \<or> (\<exists>t. t \<noteq> [] \<and> fst (hoverExecute host file line column c) = Some (Inr (TextContent t)))"
    by (simp add: hoverExecute_response renderHover_nonempty split: option.splits sum.splits)
  have definition_text: "fst (definitionExecute host file line column c) = None
        \<or> (\<exists>t. t \<noteq> [] \<and> fst (definitionExecute host file line column c) = Some (Inr (TextContent t)))"
    by (simp add: definitionExecute_response renderDefinition_nonempty split: option.splits sum.splits)
  have references_text: "fst (referencesExecute host file line column incl c) = None
        \<or> (\<exists>t. t \<noteq> [] \<and> fst (referencesExecute host file line column incl c) = Some (Inr (TextContent t)))"
    by (simp add: referencesExecute_response renderReferences_nonempty split: option.splits sum.splits)
  have symbols_text: "fst (symbolsExecute host query c) = None
        \<or> (\<exists>t. t \<noteq> [] \<and> fst (symbolsExecute host query c) = Some (Inr (TextContent t)))"
    by (simp add: symbolsExecute_response renderSymbols_nonempty split: option.splits sum.splits)
  have diagnostics_text: "fst (diagnosticsExecute host file c) = None
        \<or> (\<exists>t. t \<noteq> [] \<and> fst (diagnosticsExecute host file c) = Some (Inr (TextContent t)))"
    by (simp add: diagnosticsExecute_response renderDiagnostics_nonempty split: option.splits sum.splits)
  show ?thesis
    by (intro conjI)
       (fact absent, fact symbols, fact hover_text, fact definition_text, fact references_text,
        fact symbols_text, fact diagnostics_text)
qed

theorem absent_results_explained_witness:
  "fst (definitionExecute exampleHost ''/test/file.swift'' 1 5 newClient) =
     Some (Inr (TextContent ''No definition found at this position''))
   \<and> fst (symbolsExecute exampleHost ''View'' newClient) =
     Some (Inr (TextContent (''No symbols found matching '' @ quoted ''View'')))"
proof -
  have opened: "fst (openFile (connection exampleHost) (fileUri exampleHost ''/test/file.swift'')
                      ''let x: String'' newClient) = Some (Inr ())"
    by (simp add: exampleHost_opens)
  have reply: "definitionOutcome (connection exampleHost) (fileUri exampleHost ''/test/file.swift'')
                 (Position (1 - 1) (5 - 1)) \<in> {Some (Inr DefinitionNull), Some (Inr (DefinitionMany []))}"
    by (simp add: exampleHost_def liveConnection_def)
  have none: "symbolOutcome (connection exampleHost) ''View'' \<in> {Some (Inr None), Some (Inr (Some []))}"
    by (simp add: exampleHost_def liveConnection_def)
  note inst = absent_results_explained
    [of exampleHost "''/test/file.swift''" newClient 1 5 _ _ "''View''"]
  have first: "fst (definitionExecute exampleHost ''/test/file.swift'' 1 5 newClient) =
     Some (Inr (TextContent ''No definition found at this position''))"
    using inst exampleHost_reads opened reply by blast
  have second: "fst (symbolsExecute exampleHost ''View'' newClient) =
     Some (Inr (TextContent (''No symbols found matching '' @ quoted ''View'')))"
    using inst none by blast
  show ?thesis using first second by blast
qed

section \<open>Properties of the tool-call handler\<close>

lemma ajvErrors_additional:
  assumes "schema_additionalProperties schema = Some False"
      and "key \<in> fst ` set args"
      and "key \<notin> fst ` set (schema_properties schema)"
  shows "ajvErrors schema args \<noteq> []"
proof -
  have "key \<in> set (filter (\<lambda>k. map_of (schema_properties schema) k = None) (map fst args))"
    using assms(2,3) by (simp add: map_of_eq_None_iff)
  then have "filter (\<lambda>k. map_of (schema_properties schema) k = None) (map fst args) \<noteq> []"
    by (metis empty_iff list.set(1))
  then show ?thesis
    using assms(1) by (simp add: ajvErrors_def)
qed

lemma ajvErrors_property:
  assumes "(key, prop) \<in> set (schema_properties schema)"
      and "map_of args key = Some v"
      and "checkProperty key prop v \<noteq> []"
  shows "ajvErrors schema args \<noteq> []"
proof -
  have "checkProperty key prop v \<in>
          set (map (\<lambda>(key, prop). case map_of args key of None \<Rightarrow> [] | Some v \<Rightarrow> checkProperty key prop v)
                 (schema_properties schema))"
    using assms(1,2) by force
  then have "concat (map (\<lambda>(key, prop). case map_of args key of None \<Rightarrow> [] | Some v \<Rightarrow> checkProperty key prop v)
                 (schema_properties schema)) \<noteq> []"
    using assms(3) by (simp del: set_map) blast
  then show ?thesis
    by (simp add: ajvErrors_def)
qed

lemma validationSchema_closed:
  "schema_additionalProperties (validationSchema tool) = Some False"
  by (simp add: validationSchema_def Let_def)

lemma setMinimum_keys [simp]: "map fst (setMinimum key m props) = map fst props"
  by (induction props) (auto simp: setMinimum_def)

lemma setMinLength_keys [simp]: "map fst (setMinLength key m props) = map fst props"
  by (induction props) (auto simp: setMinLength_def)

lemma validationSchema_keys:
  "map fst (schema_properties (validationSchema tool)) = map fst (schema_properties (tool_inputSchema tool))"
  by (simp add: validationSchema_def Let_def)

lemma validationSchema_bounds:
  assumes "tool \<in> set TOOL_DEFINITIONS"
      and "(key, prop) \<in> set (schema_properties (validationSchema tool))"
  shows "(key = ''line'' \<or> key = ''column'' \<longrightarrow> prop_type prop = TNumber \<and> prop_minimum prop = Some 1)
       \<and> (key = ''query'' \<longrightarrow> prop_type prop = TString \<and> prop_minLength prop = Some 1)"
  using assms
  by (auto simp: TOOL_DEFINITIONS_def validationSchema_def setMinimum_def setMinLength_def
      fileProperty_def lineProperty_def columnProperty_def)

lemma public_schema_unbounded:
  assumes "tool \<in> set TOOL_DEFINITIONS"
  shows "schema_additionalProperties (tool_inputSchema tool) = None"
    and "(key, prop) \<in> set (schema_properties (tool_inputSchema tool)) \<Longrightarrow>
           prop_minimum prop = None \<and> prop_minLength prop = None"
  using assms
  by (auto simp: TOOL_DEFINITIONS_def fileProperty_def lineProperty_def columnProperty_def)

lemma bounded_property_rejected:
  assumes tool: "tool \<in> set TOOL_DEFINITIONS"
      and given: "map_of args key = Some v"
      and bad: "\<And>prop. (key, prop) \<in> set (schema_properties (validationSchema tool)) \<Longrightarrow>
                  checkProperty key prop v \<noteq> []"
  shows "ajvErrors (validationSchema tool) args \<noteq> []"
proof (cases "key \<in> fst ` set (schema_properties (validationSchema tool))")
  case True
  then obtain p where p: "(key, p) \<in> set (schema_properties (validationSchema tool))"
    by force
  show ?thesis
    using p given bad [OF p] by (rule ajvErrors_property)
next
  case False
  have "key \<in> fst ` set args"
    using given by (metis map_of_eq_None_iff option.distinct(1))
  with validationSchema_closed show ?thesis
    using False by (rule ajvErrors_additional)
qed

lemma invalid_has_errors:
  assumes tool: "tool \<in> set TOOL_DEFINITIONS"
      and invalid: "(\<exists>key \<in> fst ` set args. key \<notin> set (map fst (schema_properties (tool_inputSchema tool))))
        \<or> (\<exists>n. map_of args ''line'' = Some (JNumber n) \<and> n < 1)
        \<or> (\<exists>n. map_of args ''column'' = Some (JNumber n) \<and> n < 1)
        \<or> map_of args ''query'' = Some (JString [])"
  shows "ajvErrors (validationSchema tool) args \<noteq> []"
proof -
  consider (extra) key where "key \<in> fst ` set args"
        "key \<notin> set (map fst (schema_properties (tool_inputSchema tool)))"
    | (line) n where "map_of args ''line'' = Some (JNumber n)" "n < 1"
    | (column) n where "map_of args ''column'' = Some (JNumber n)" "n < 1"
    | (query) "map_of args ''query'' = Some (JString [])"
    using invalid by blast
  then show ?thesis
  proof cases
    case extra
    have "key \<notin> fst ` set (schema_properties (validationSchema tool))"
      using extra(2) validationSchema_keys [of tool] by (metis set_map)
    with validationSchema_closed extra(1) show ?thesis
      by (rule ajvErrors_additional)
  next
    case line
    show ?thesis
    proof (rule bounded_property_rejected [OF tool line(1)])
      fix p assume "(''line'', p) \<in> set (schema_properties (validationSchema tool))"
      from validationSchema_bounds [OF tool this] line(2)
      show "checkProperty ''line'' p (JNumber n) \<noteq> []"
        by (simp add: checkProperty_def)
    qed
  next
    case column
    show ?thesis
    proof (rule bounded_property_rejected [OF tool column(1)])
      fix p assume "(''column'', p) \<in> set (schema_properties (validationSchema tool))"
      from validationSchema_bounds [OF tool this] column(2)
      show "checkProperty ''column'' p (JNumber n) \<noteq> []"
        by (simp add: checkProperty_def)
    qed
  next
    case query
    show ?thesis
    proof (rule bounded_property_rejected [OF tool query])
      fix p assume "(''query'', p) \<in> set (schema_properties (validationSchema tool))"
      from validationSchema_bounds [OF tool this]
      show "checkProperty ''query'' p (JString []) \<noteq> []"
        by (simp add: checkProperty_def)
    qed
  qed
qed

lemma validateToolArgs_truthy: "validateToolArgs name args \<noteq> Some []"
  by (simp add: validateToolArgs_def Let_def split: option.splits)

lemma find_tool:
  assumes "find (\<lambda>tool. tool_name tool = name) TOOL_DEFINITIONS = Some tool"
  shows "tool \<in> set TOOL_DEFINITIONS" and "tool_name tool = name"
  using assms by (auto simp: find_Some_iff)

lemma invalid_validateToolArgs:
  assumes "(\<exists>key \<in> fst ` set args. key \<notin> set (declaredProperties name))
        \<or> (\<exists>n. map_of args ''line'' = Some (JNumber n) \<and> n < 1)
        \<or> (\<exists>n. map_of args ''column'' = Some (JNumber n) \<and> n < 1)
        \<or> map_of args ''query'' = Some (JString [])"
  shows "\<exists>msg. msg \<noteq> [] \<and> validateToolArgs name args = Some msg"
proof (cases "find (\<lambda>tool. tool_name tool = name) TOOL_DEFINITIONS")
  case None
  then show ?thesis by (simp add: validateToolArgs_def)
next
  case (Some tool)
  have "ajvErrors (validationSchema tool) args \<noteq> []"
    using find_tool(1) [OF Some] assms
    by (intro invalid_has_errors) (simp_all add: declaredProperties_def Some)
  then have "ajvValidate (validationSchema tool) args \<noteq> []"
    by (simp add: ajvValidate_def)
  then show ?thesis
    using Some by (simp add: validateToolArgs_def Let_def)
qed

text \<open>
  Claim C10. A tool call whose arguments contain a property that the tool's input schema
  does not declare, or a \<open>line\<close> or \<open>column\<close> below 1, or an empty \<open>query\<close>, is
  answered by a text starting with \<open>Validation error:\<close>, and the client is left as it
  was: no document is opened and no request is sent. The schema that is checked is the
  public one with \<open>additionalProperties\<close> false, \<open>minimum\<close> 1 on \<open>line\<close> and \<open>column\<close>,
  and \<open>minLength\<close> 1 on \<open>query\<close>; the public schema itself carries none of these.
\<close>

theorem invalid_arguments_rejected:
  "((\<exists>key \<in> fst ` set args. key \<notin> set (declaredProperties name))
      \<or> (\<exists>n. map_of args ''line'' = Some (JNumber n) \<and> n < 1)
      \<or> (\<exists>n. map_of args ''column'' = Some (JNumber n) \<and> n < 1)
      \<or> map_of args ''query'' = Some (JString []) \<longrightarrow>
    (\<exists>msg. handleCallTool host name (Some args) c = (Some (TextContent (''Validation error: '' @ msg)), c)))
   \<and> (\<forall>tool \<in> set TOOL_DEFINITIONS.
        schema_additionalProperties (validationSchema tool) = Some False
      \<and> map fst (schema_properties (validationSchema tool)) = map fst (schema_properties (tool_inputSchema tool))
      \<and> (\<forall>key prop. (key, prop) \<in> set (schema_properties (validationSchema tool)) \<longrightarrow>
            (key = ''line'' \<or> key = ''column'' \<longrightarrow> prop_minimum prop = Some 1)
          \<and> (key = ''query'' \<longrightarrow> prop_minLength prop = Some 1))
      \<and> schema_additionalProperties (tool_inputSchema tool) = None
      \<and> (\<forall>key prop. (key, prop) \<in> set (schema_properties (tool_inputSchema tool)) \<longrightarrow>
            prop_minimum prop = None \<and> prop_minLength prop = None))"
proof -
  have rejected: "\<exists>msg. handleCallTool host name (Some args) c = (Some (TextContent (''Validation error: '' @ msg)), c)"
    if "(\<exists>key \<in> fst ` set args. key \<notin> set (declaredProperties name))
      \<or> (\<exists>n. map_of args ''line'' = Some (JNumber n) \<and> n < 1)
      \<or> (\<exists>n. map_of args ''column'' = Some (JNumber n) \<and> n < 1)
      \<or> map_of args ''query'' = Some (JString [])"
  proof -
    from invalid_validateToolArgs [OF that]
    obtain msg where "msg \<noteq> []" "validateToolArgs name args = Some msg" by blast
    then show ?thesis by (simp add: handleCallTool_def)
  qed
  have schemas: "schema_additionalProperties (validationSchema tool) = Some False
      \<and> map fst (schema_properties (validationSchema tool)) = map fst (schema_properties (tool_inputSchema tool))
      \<and> (\<forall>key prop. (key, prop) \<in> set (schema_properties (validationSchema tool)) \<longrightarrow>
            (key = ''line'' \<or> key = ''column'' \<longrightarrow> prop_minimum prop = Some 1)
          \<and> (key = ''query'' \<longrightarrow> prop_minLength prop = Some 1))
      \<and> schema_additionalProperties (tool_inputSchema tool) = None
      \<and> (\<forall>key prop. (key, prop) \<in> set (schema_properties (tool_inputSchema tool)) \<longrightarrow>
            prop_minimum prop = None \<and> prop_minLength prop = None)"
    if "tool \<in> set TOOL_DEFINITIONS" for tool
    using validationSchema_closed [of tool] validationSchema_keys [of tool]
      validationSchema_bounds [OF that] public_schema_unbounded [OF that]
    by blast
  show ?thesis
    using rejected schemas by blast
qed

theorem invalid_arguments_rejected_witness:
  "(\<exists>msg. handleCallTool exampleHost ''swift-hover'' (Some lineZeroArgs) newClient =
            (Some (TextContent (''Validation error: '' @ msg)), newClient))
   \<and> (\<exists>msg. handleCallTool exampleHost ''swift-diagnostics'' (Some extraArgs) newClient =
            (Some (TextContent (''Validation error: '' @ msg)), newClient))
   \<and> (\<exists>msg. handleCallTool exampleHost ''swift-symbols'' (Some [(''query'', JString [])]) newClient =
            (Some (TextContent (''Validation error: '' @ msg)), newClient))"
proof -
  have line: "\<exists>n. map_of lineZeroArgs ''line'' = Some (JNumber n) \<and> n < 1"
    by (simp add: lineZeroArgs_def)
  have extra: "\<exists>key \<in> fst ` set extraArgs. key \<notin> set (declaredProperties ''swift-diagnostics'')"
    by (simp add: extraArgs_def declaredProperties_def TOOL_DEFINITIONS_def fileProperty_def)
  have query: "map_of [(''query'', JString [])] ''query'' = Some (JString [])"
    by simp
  show ?thesis
    using invalid_arguments_rejected [of lineZeroArgs "''swift-hover''" exampleHost newClient] line
      invalid_arguments_rejected [of extraArgs "''swift-diagnostics''" exampleHost newClient] extra
      invalid_arguments_rejected [of "[(''query'', JString [])]" "''swift-symbols''" exampleHost newClient] query
    by blast
qed

lemma validation_messages:
  "validateToolArgs ''swift-hover'' lineZeroArgs = Some ''/line must be >= 1''"
  "validateToolArgs ''swift-diagnostics'' extraArgs = Some ''root must NOT have additional properties''"
  "validateToolArgs ''swift-symbols'' [(''query'', JString [])] =
     Some ''/query must NOT have fewer than 1 characters''"
  "validateToolArgs ''swift-hover'' [(''file'', JString ''/test/file.swift'')] =
     Some (''root must have required property '' @ apostrophe @ ''line'' @ apostrophe)"
  "validateToolArgs ''swift-rename'' validArgs = Some ''Unknown tool: swift-rename''"
  "validateToolArgs ''swift-hover'' validArgs = None"
  by (simp_all add: validateToolArgs_def TOOL_DEFINITIONS_def validationSchema_def ajvValidate_def
      ajvErrors_def checkProperty_def setMinimum_def setMinLength_def fileProperty_def
      lineProperty_def columnProperty_def renderAjvError_def lineZeroArgs_def extraArgs_def
      validArgs_def showInt_def showNat.simps apostrophe_def)

lemma valid_call_executes:
  "fst (handleCallTool exampleHost ''swift-hover'' (Some validArgs) newClient) =
     Some (TextContent ''let x: String'')"
proof -
  have "callTool exampleHost ''swift-hover'' validArgs newClient =
          hoverExecute exampleHost ''/test/file.swift'' 1 5 newClient"
    by (simp add: callTool_def validArgs_def argString_def argNumber_def)
  moreover have "fst (hoverExecute exampleHost ''/test/file.swift'' 1 5 newClient) =
          Some (Inr (TextContent ''let x: String''))"
    by (simp add: hoverExecute_response exampleHost_reads exampleHost_opens)
       (simp add: exampleHost_def liveConnection_def renderHover_def)
  ultimately show ?thesis
    by (auto simp: handleCallTool_def validation_messages(6) split: prod.splits option.splits sum.splits)
qed

text \<open>
  Arguments that pass validation are of the types the tools read, so the call reaches the
  tool: it never ends in an exception.
\<close>

lemma ajvValidate_empty: "ajvValidate schema args = [] \<longleftrightarrow> ajvErrors schema args = []"
  by (simp add: ajvValidate_def take_Suc split: list.splits)

lemma validateToolArgs_None:
  "validateToolArgs name args = None \<longleftrightarrow>
     (\<exists>tool. find (\<lambda>tool. tool_name tool = name) TOOL_DEFINITIONS = Some tool
        \<and> ajvErrors (validationSchema tool) args = [])"
  by (auto simp: validateToolArgs_def Let_def ajvValidate_empty split: option.splits)

lemma checked_number:
  "checkProperty key (PropertySchema TNumber d df (Some m) ml) v = [] \<longleftrightarrow> (\<exists>n. v = JNumber n \<and> m \<le> n)"
  by (cases v) (auto simp: checkProperty_def)

lemma checked_string:
  "checkProperty key (PropertySchema TString d df mn None) v = [] \<longleftrightarrow> (\<exists>s. v = JString s)"
  "checkProperty key (PropertySchema TString d df mn (Some m)) v = [] \<longleftrightarrow> (\<exists>s. v = JString s \<and> m \<le> length s)"
  by (cases v; auto simp: checkProperty_def)+

lemma checked_boolean:
  "checkProperty key (PropertySchema TBoolean d df mn ml) v = [] \<longleftrightarrow> (\<exists>b. v = JBool b)"
  by (cases v) (auto simp: checkProperty_def)

lemma validated_hover:
  assumes "validateToolArgs ''swift-hover'' args = None"
  shows "\<exists>file line column. argString args ''file'' = Some file
           \<and> argNumber args ''line'' = Some line \<and> 1 \<le> line
           \<and> argNumber args ''column'' = Some column \<and> 1 \<le> column"
  using assms
  by (auto simp: validateToolArgs_None TOOL_DEFINITIONS_def validationSchema_def ajvErrors_def
      setMinimum_def setMinLength_def fileProperty_def lineProperty_def columnProperty_def
      checked_number checked_string argString_def argNumber_def split: option.splits)

lemma validated_references:
  assumes "validateToolArgs ''swift-references'' args = None"
  shows "\<exists>file line column incl. argString args ''file'' = Some file
           \<and> argNumber args ''line'' = Some line \<and> 1 \<le> line
           \<and> argNumber args ''column'' = Some column \<and> 1 \<le> column
           \<and> argBoolean args ''includeDeclaration'' = Some incl"
  using assms
  by (auto simp: validateToolArgs_None TOOL_DEFINITIONS_def validationSchema_def ajvErrors_def
      setMinimum_def setMinLength_def fileProperty_def lineProperty_def columnProperty_def
      checked_number checked_string checked_boolean argString_def argNumber_def argBoolean_def
      split: option.splits)

lemma validated_definition:
  assumes "validateToolArgs ''swift-definition'' args = None"
  shows "\<exists>file line column. argString args ''file'' = Some file
           \<and> argNumber args ''line'' = Some line \<and> 1 \<le> line
           \<and> argNumber args ''column'' = Some column \<and> 1 \<le> column"
  using assms
  by (auto simp: validateToolArgs_None TOOL_DEFINITIONS_def validationSchema_def ajvErrors_def
      setMinimum_def setMinLength_def fileProperty_def lineProperty_def columnProperty_def
      checked_number checked_string argString_def argNumber_def split: option.splits)

lemma validated_symbols:
  assumes "validateToolArgs ''swift-symbols'' args = None"
  shows "\<exists>query. argString args ''query'' = Some query \<and> query \<noteq> []"
  using assms
  by (auto simp: validateToolArgs_None TOOL_DEFINITIONS_def validationSchema_def ajvErrors_def
      setMinimum_def setMinLength_def checked_string argString_def split: option.splits)

lemma validated_diagnostics:
  assumes "validateToolArgs ''swift-diagnostics'' args = None"
  shows "\<exists>file. argString args ''file'' = Some file"
  using assms
  by (auto simp: validateToolArgs_None TOOL_DEFINITIONS_def validationSchema_def ajvErrors_def
      setMinimum_def setMinLength_def fileProperty_def checked_string argString_def
      split: option.splits)

lemma validated_name:
  assumes "validateToolArgs name args = None"
  shows "name \<in> {''swift-hover'', ''swift-definition'', ''swift-references'', ''swift-symbols'',
                  ''swift-diagnostics''}"
proof -
  from assms obtain tool where "find (\<lambda>tool. tool_name tool = name) TOOL_DEFINITIONS = Some tool"
    by (auto simp: validateToolArgs_None)
  then have "tool \<in> set TOOL_DEFINITIONS" "tool_name tool = name"
    by (auto simp: find_Some_iff)
  then show ?thesis
    by (auto simp: TOOL_DEFINITIONS_def)
qed

lemma validated_call_returns:
  assumes "validateToolArgs name args = None"
  shows "fst (callTool host name args c) \<noteq> Some (Inl e)"
proof -
  consider "name = ''swift-hover''" | "name = ''swift-definition''" | "name = ''swift-references''"
    | "name = ''swift-symbols''" | "name = ''swift-diagnostics''"
    using validated_name [OF assms] by blast
  then show ?thesis
  proof cases
    case 1
    from validated_hover assms 1
    obtain f l col where "argString args ''file'' = Some f"
      "argNumber args ''line'' = Some l" "argNumber args ''column'' = Some col"
      by blast
    with 1 show ?thesis
      by (simp add: callTool_def hoverExecute_returns)
  next
    case 2
    from validated_definition assms 2
    obtain f l col where "argString args ''file'' = Some f"
      "argNumber args ''line'' = Some l" "argNumber args ''column'' = Some col"
      by blast
    with 2 show ?thesis
      by (simp add: callTool_def definitionExecute_returns)
  next
    case 3
    from validated_references assms 3
    obtain f l col incl where "argString args ''file'' = Some f"
      "argNumber args ''line'' = Some l" "argNumber args ''column'' = Some col"
      "argBoolean args ''includeDeclaration'' = Some incl"
      by blast
    with 3 show ?thesis
      by (simp add: callTool_def referencesExecute_returns)
  next
    case 4
    from validated_symbols assms 4
    obtain q where "argString args ''query'' = Some q"
      by blast
    with 4 show ?thesis
      by (simp add: callTool_def symbolsExecute_returns)
  next
    case 5
    from validated_diagnostics assms 5
    obtain f where "argString args ''file'' = Some f"
      by blast
    with 5 show ?thesis
      by (simp add: callTool_def diagnosticsExecute_returns)
  qed
qed

section \<open>Process exit and shutdown\<close>

lemma openFile_result_perform:
  "fst (openFile conn uri content (perform e c)) = fst (openFile conn uri content c)"
  by (simp add: openFile_def updateFile_def awaitNotification_def Let_def
      split: option.splits notify_outcome.splits)

lemma closeFile_result_perform:
  "fst (closeFile conn uri (perform e c)) = fst (closeFile conn uri c)"
  by (simp add: closeFile_def awaitNotification_def split: notify_outcome.splits)

lemma shutdown_result_perform:
  "fst (shutdown conn (perform e c)) = fst (shutdown conn c)"
  by (simp add: shutdown_def fireNotification_def Let_def
      split: option.splits sum.splits notify_outcome.splits)

lemma step_spawns: "filter isSpawn (effects (step ev c)) = filter isSpawn (effects c)"
proof (cases ev)
  case (OpenFileCall conn uri content)
  then show ?thesis
    by (simp add: openFile_def updateFile_def awaitNotification_def Let_def
        split: option.splits notify_outcome.splits)
next
  case (OpenFileStarted conn uri content)
  then show ?thesis
    by (simp add: openFileStart_def Let_def split: option.splits)
next
  case (OpenFileResumed uri suspended)
  then show ?thesis
    by (simp add: openFileResume_def split: option.splits prod.splits notify_outcome.splits)
next
  case (CloseFileCall conn uri)
  then show ?thesis
    by (simp add: closeFile_def awaitNotification_def split: notify_outcome.splits)
next
  case (ShutdownCall conn)
  then show ?thesis
    by (simp add: shutdown_def fireNotification_def Let_def
      split: option.splits sum.splits notify_outcome.splits)
qed (simp_all add: onPublishDiagnostics_def onProcessExit_def hover_def definition_at_def
      references_def workspaceSymbols_def)

lemma run_spawns: "filter isSpawn (effects (run evs c)) = filter isSpawn (effects c)"
  by (induction evs rule: rev_induct) (simp_all add: run_snoc step_spawns, simp add: run_def)

text \<open>
  Claim C5, as the code has it. The exit observer only writes the exit code to the error
  console. It changes neither the open documents nor the diagnostics cache, it touches
  neither the connection nor the process, and no operation or handler of the client
  after it spawns a subprocess. The client keeps no connection state: every later
  operation returns what it would have returned without the exit, so it fails only if
  the connection itself raises.
\<close>

theorem onProcessExit_only_logs:
  "openFiles (onProcessExit code c) = openFiles c
   \<and> diagnosticsCache (onProcessExit code c) = diagnosticsCache c
   \<and> effects (onProcessExit code c) =
       effects c @ [ConsoleError (''SourceKit-LSP exited with code '' @
                      (case code of Some n \<Rightarrow> showInt n | None \<Rightarrow> ''null''))]
   \<and> filter isSpawn (effects (run evs (onProcessExit code c))) = filter isSpawn (effects c)
   \<and> fst (openFile conn uri content (onProcessExit code c)) = fst (openFile conn uri content c)
   \<and> fst (closeFile conn uri (onProcessExit code c)) = fst (closeFile conn uri c)
   \<and> fst (hover conn uri l ch (onProcessExit code c)) = fst (hover conn uri l ch c)
   \<and> fst (definition_at conn uri l ch (onProcessExit code c)) = fst (definition_at conn uri l ch c)
   \<and> fst (references conn uri l ch incl (onProcessExit code c)) = fst (references conn uri l ch incl c)
   \<and> fst (workspaceSymbols conn query (onProcessExit code c)) = fst (workspaceSymbols conn query c)
   \<and> fst (shutdown conn (onProcessExit code c)) = fst (shutdown conn c)
   \<and> getFileVersion uri (onProcessExit code c) = getFileVersion uri c
   \<and> getDiagnostics uri (onProcessExit code c) = getDiagnostics uri c"
  by (simp add: onProcessExit_def run_spawns openFile_result_perform closeFile_result_perform
      shutdown_result_perform hover_def definition_at_def references_def workspaceSymbols_def
      getFileVersion_def getDiagnostics_def)

theorem onProcessExit_only_logs_witness:
  "effects exitedClient =
     [SendNotification (DidOpen exampleUri ''swift'' 1 ''let x: String''),
      ConsoleError ''SourceKit-LSP exited with code 1'']
   \<and> fst (hover deadConnection exampleUri 0 4 exitedClient) = Some (Inl connectionClosed)"
  using onProcessExit_only_logs [of "Some 1" exampleClient "[]" deadConnection exampleUri _ 0 4]
  by (simp add: exitedClient_def exampleClient_def openFile_untracked newClient_def
      liveConnection_def deadConnection_def hover_def showInt_def showNat.simps)

lemma deadHost_simps [simp]:
  "readFile deadHost ''/test/file.swift'' = Some (Inr ''let x: String'')"
  "fileUri deadHost ''/test/file.swift'' = exampleUri"
  "connection deadHost = deadConnection"
  "arrivals deadHost = []"
  by (simp_all add: deadHost_def exampleHost_def exampleUri_def)

text \<open>
  Claim C5 as stated fails: after the subprocess has exited with code 1, and on a
  connection that refuses every call, re-opening the tracked document with its content,
  reading its version, reading its diagnostics and the whole diagnostics tool still
  succeed.
\<close>

theorem exit_then_operations_succeed:
  "fst (openFile deadConnection exampleUri ''let x: String'' exitedClient) = Some (Inr ())
   \<and> getFileVersion exampleUri exitedClient = Some 1
   \<and> getDiagnostics exampleUri exitedClient = []
   \<and> fst (diagnosticsExecute deadHost ''/test/file.swift'' exitedClient) =
       Some (Inr (TextContent ''No diagnostics (errors or warnings) found for this file''))"
proof -
  have tracked: "openFiles exitedClient exampleUri = Some (FileInfo 1 ''let x: String'')"
    by (simp add: exitedClient_def onProcessExit_def exampleClient_tracked)
  have "diagnosticsCache exampleClient = Map.empty"
    by (simp add: exampleClient_def openFile_untracked newClient_def liveConnection_def)
  then have cache: "getDiagnostics exampleUri exitedClient = []"
    by (simp add: getDiagnostics_def exitedClient_def onProcessExit_def)
  have again: "openFile deadConnection exampleUri ''let x: String'' exitedClient = (Some (Inr ()), exitedClient)"
    using tracked by (rule openFile_tracked_same)
  have tool: "fst (diagnosticsExecute deadHost ''/test/file.swift'' exitedClient) =
       Some (Inr (TextContent ''No diagnostics (errors or warnings) found for this file''))"
    by (simp add: diagnosticsExecute_response again cache renderDiagnostics_def)
  show ?thesis
    using tracked cache again tool by (simp add: getFileVersion_def)
qed

lemma shutdown_completes:
  "fst (shutdown conn c) = Some (Inr ()) \<longleftrightarrow>
     shutdownOutcome conn = Some (Inr ()) \<and> (\<forall>e. notifyOutcome conn ExitNotification \<noteq> ThrowsSync e)"
  by (auto simp: shutdown_def fireNotification_def Let_def
      split: option.splits sum.splits notify_outcome.splits)

lemma shutdown_state:
  "fst (shutdown conn c) = Some (Inr ()) \<Longrightarrow>
   snd (shutdown conn c) =
     perform Kill (perform Dispose (perform (SendNotification ExitNotification)
       (perform (SendRequest ShutdownRequest) c)))"
  by (auto simp: shutdown_def fireNotification_def Let_def
      split: option.splits sum.splits notify_outcome.splits)

text \<open>
  Claim C6, as the code has it. A shutdown that completes has sent the shutdown request
  and the exit notification, disposed the connection and sent the kill signal to the
  subprocess, in this order, and has left the open documents and the diagnostics cache
  as they were. The client keeps no record of it: every later operation returns what it
  would have returned before the shutdown, so it fails only if the disposed connection
  raises.
\<close>

theorem shutdown_effects:
  assumes "fst (shutdown conn c) = Some (Inr ())"
  shows "effects (snd (shutdown conn c)) =
           effects c @ [SendRequest ShutdownRequest, SendNotification ExitNotification, Dispose, Kill]
       \<and> openFiles (snd (shutdown conn c)) = openFiles c
       \<and> diagnosticsCache (snd (shutdown conn c)) = diagnosticsCache c
       \<and> fst (openFile conn' uri content (snd (shutdown conn c))) = fst (openFile conn' uri content c)
       \<and> fst (closeFile conn' uri (snd (shutdown conn c))) = fst (closeFile conn' uri c)
       \<and> fst (hover conn' uri l ch (snd (shutdown conn c))) = fst (hover conn' uri l ch c)
       \<and> fst (definition_at conn' uri l ch (snd (shutdown conn c))) = fst (definition_at conn' uri l ch c)
       \<and> fst (references conn' uri l ch incl (snd (shutdown conn c))) = fst (references conn' uri l ch incl c)
       \<and> fst (workspaceSymbols conn' query (snd (shutdown conn c))) = fst (workspaceSymbols conn' query c)
       \<and> getFileVersion uri (snd (shutdown conn c)) = getFileVersion uri c
       \<and> getDiagnostics uri (snd (shutdown conn c)) = getDiagnostics uri c"
  by (simp add: shutdown_state [OF assms] openFile_result_perform closeFile_result_perform
      hover_def definition_at_def references_def workspaceSymbols_def
      getFileVersion_def getDiagnostics_def)

lemma closedClient_completed: "fst (shutdown liveConnection exampleClient) = Some (Inr ())"
  by (simp add: shutdown_completes liveConnection_def)

theorem shutdown_effects_witness:
  "effects closedClient =
     [SendNotification (DidOpen exampleUri ''swift'' 1 ''let x: String''),
      SendRequest ShutdownRequest, SendNotification ExitNotification, Dispose, Kill]
   \<and> fst (hover deadConnection exampleUri 0 4 closedClient) = Some (Inl connectionClosed)"
  using shutdown_effects [OF closedClient_completed, of deadConnection exampleUri _ 0 4]
  by (simp add: closedClient_def exampleClient_def openFile_untracked newClient_def
      liveConnection_def deadConnection_def hover_def)

text \<open>
  Claim C6 as stated fails: after a completed shutdown, and on a connection that refuses
  every call, re-opening the tracked document with its content, reading its version,
  reading its diagnostics and the whole diagnostics tool still succeed.
\<close>

theorem shutdown_then_operations_succeed:
  "fst (shutdown liveConnection exampleClient) = Some (Inr ())
   \<and> fst (openFile deadConnection exampleUri ''let x: String'' closedClient) = Some (Inr ())
   \<and> getFileVersion exampleUri closedClient = Some 1
   \<and> getDiagnostics exampleUri closedClient = []
   \<and> fst (diagnosticsExecute deadHost ''/test/file.swift'' closedClient) =
       Some (Inr (TextContent ''No diagnostics (errors or warnings) found for this file''))"
proof -
  have state: "closedClient = perform Kill (perform Dispose (perform (SendNotification ExitNotification)
       (perform (SendRequest ShutdownRequest) exampleClient)))"
    unfolding closedClient_def using closedClient_completed by (rule shutdown_state)
  have tracked: "openFiles closedClient exampleUri = Some (FileInfo 1 ''let x: String'')"
    by (simp add: state exampleClient_tracked)
  have "diagnosticsCache exampleClient = Map.empty"
    by (simp add: exampleClient_def openFile_untracked newClient_def liveConnection_def)
  then have cache: "getDiagnostics exampleUri closedClient = []"
    by (simp add: getDiagnostics_def state)
  have again: "openFile deadConnection exampleUri ''let x: String'' closedClient = (Some (Inr ()), closedClient)"
    using tracked by (rule openFile_tracked_same)
  have tool: "fst (diagnosticsExecute deadHost ''/test/file.swift'' closedClient) =
       Some (Inr (TextContent ''No diagnostics (errors or warnings) found for this file''))"
    by (simp add: diagnosticsExecute_response again cache renderDiagnostics_def)
  show ?thesis
    using closedClient_completed tracked cache again tool by (simp add: getFileVersion_def)
qed

section \<open>The repository's unit tests, replayed\<close>

text \<open>
  The cases of the tests of the client and of the hover tool that the properties above
  do not already cover, evaluated on the definitions.
\<close>

lemma connect_spawns_default:
  "effects (snd (connect None None True (\<lambda>path. ''file://'' @ path) liveConnection ''/test/workspace'' newClient)) =
     [Spawn ''sourcekit-lsp'' [] ''/test/workspace'',
      OnNotification ''textDocument/publishDiagnostics'',
      Listen,
      SendRequest (InitializeRequest ''file:///test/workspace''),
      SendNotification InitializedNotification]"
  by (simp add: connect_def Let_def liveConnection_def fireNotification_def newClient_def perform_def)

lemma connect_spawns_custom:
  "hd (effects (snd (connect (Some ''/custom/path/sourcekit-lsp'') (Some ''-Xswiftc -debug-info-format=dwarf'')
         True (\<lambda>path. ''file://'' @ path) liveConnection ''/test/workspace'' newClient))) =
     Spawn ''/custom/path/sourcekit-lsp'' [''-Xswiftc'', ''-debug-info-format=dwarf''] ''/test/workspace''"
  by (simp add: connect_def Let_def liveConnection_def fireNotification_def newClient_def perform_def)

lemma hover_markup_contents:
  "renderHover (Some (Hover (Some (ContentsMarkup ''markdown'' ''let x: String'')))) = ''let x: String''"
  by (simp add: renderHover_def)

lemma hover_array_contents:
  "renderHover (Some (Hover (Some (ContentsArray
      [MarkedText ''func test()'', MarkedCode ''swift'' ''func test() -> Void''])))) =
     ''func test()'' @ newline @ ''func test() -> Void''"
  by (simp add: renderHover_def markedValue_def newline_def)

lemma hover_string_contents:
  "fst (hoverExecute exampleHost ''/test/file.swift'' 1 5 newClient) = Some (Inr (TextContent ''let x: String''))"
  by (simp add: hoverExecute_response exampleHost_reads exampleHost_opens)
     (simp add: exampleHost_def liveConnection_def renderHover_def)

end
